theory Spec2Isabelle
  imports Main "HOL-Library.Word"
begin

unbundle bit_operations_syntax

section \<open>Values shared by the source files\<close>

type_synonym byte = "8 word"

text \<open>\<^verbatim>\<open>type Opcode uint8\<close>. The opcode constants are declared outside the files at hand;
  their values are the ones of the specification's data model
  (Continuation=0, Text=1, Binary=2, Close=8, Ping=9, Pong=10).\<close>

type_synonym Opcode = "8 word"

abbreviation OpcodeContinuation :: Opcode where "OpcodeContinuation \<equiv> 0"
abbreviation OpcodeText :: Opcode where "OpcodeText \<equiv> 1"
abbreviation OpcodeBinary :: Opcode where "OpcodeBinary \<equiv> 2"
abbreviation OpcodeCloseConnection :: Opcode where "OpcodeCloseConnection \<equiv> 8"
abbreviation OpcodePing :: Opcode where "OpcodePing \<equiv> 9"
abbreviation OpcodePong :: Opcode where "OpcodePong \<equiv> 10"

text \<open>Modelled from the spec: \<^verbatim>\<open>Opcode.isDataFrame\<close> is not in the files. The data model says
  "Data opcodes are {Text, Binary, Continuation}; the remainder are control."\<close>

definition isDataFrame :: "Opcode \<Rightarrow> bool" where
  "isDataFrame c = (c = OpcodeContinuation \<or> c = OpcodeText \<or> c = OpcodeBinary)"

text \<open>The close codes the files return as errors (\<^verbatim>\<open>internal.CloseProtocolError\<close> and its
  siblings are values of \<^verbatim>\<open>internal.StatusCode\<close>). Modelled from the spec: their numbers
  are the ones of its list of close codes.\<close>

datatype StatusCode = CloseProtocolError | CloseUnsupportedData | CloseMessageTooLarge

fun Uint16 :: "StatusCode \<Rightarrow> nat" where
  "Uint16 CloseProtocolError = 1002"
| "Uint16 CloseUnsupportedData = 1007"
| "Uint16 CloseMessageTooLarge = 1009"

datatype error =
    Status StatusCode
      \<comment> \<open>a status code returned as the error itself\<close>
  | NewError StatusCode error
      \<comment> \<open>\<^verbatim>\<open>internal.NewError(code, err)\<close>\<close>
  | UnexpectedOpcode Opcode
      \<comment> \<open>\<^verbatim>\<open>fmt.Errorf("gbs: unexpected opcode %d", opcode)\<close>\<close>
  | ErrTextEncoding
  | ErrHandshake
  | ErrSubprotocolNegotiation
  | ErrUnsupportedProtocol
  | ErrUnexpectedEOF
      \<comment> \<open>the byte stream ended inside a frame\<close>
  | Panic
      \<comment> \<open>a run-time panic of the Go program\<close>
  | External string
      \<comment> \<open>an error produced outside the files (transport, URL parser, dialer)\<close>

section \<open>Configuration records (option.go)\<close>

text \<open>Function-valued and interface-valued fields are compared with \<^verbatim>\<open>nil\<close> only, so
  each is an optional tag: \<open>None\<close> is \<^verbatim>\<open>nil\<close>, the default installed by the
  initialisers has a constructor of its own, and a user's value carries a number.\<close>

datatype Logger = defaultLogger | UserLogger nat
datatype RecoveryFn = RecoveryNoop | UserRecovery nat
datatype AuthorizeFn = AuthorizeAlways | UserAuthorize nat
datatype NewSessionFn = NewSmap | UserNewSession nat
datatype NewDialerFn = NetDialer int | UserNewDialer nat

record TlsConfig =
  ServerName :: string

text \<open>\<^verbatim>\<open>http.Header\<close>: a map from header names to their values; \<^verbatim>\<open>Get\<close> returns the first
  value of a name, or the empty string.\<close>

type_synonym Header = "string \<rightharpoonup> string list"

definition Get :: "Header \<Rightarrow> string \<Rightarrow> string" where
  "Get h k = (case h k of None \<Rightarrow> [] | Some [] \<Rightarrow> [] | Some (v # _) \<Rightarrow> v)"

definition Del :: "Header \<Rightarrow> string \<Rightarrow> Header" where
  "Del h k = h(k := None)"

definition defaultReadAsyncGoLimit :: int where "defaultReadAsyncGoLimit = 8"
definition defaultCompressLevel :: int where "defaultCompressLevel = 1"
definition defaultReadMaxPayloadSize :: int where "defaultReadMaxPayloadSize = 16 * 1024 * 1024"
definition defaultWriteMaxPayloadSize :: int where "defaultWriteMaxPayloadSize = 16 * 1024 * 1024"
definition defaultCompressThreshold :: int where "defaultCompressThreshold = 512"
definition defaultCompressorPoolSize :: int where "defaultCompressorPoolSize = 32"
definition defaultReadBufferSize :: int where "defaultReadBufferSize = 4 * 1024"
definition defaultWriteBufferSize :: int where "defaultWriteBufferSize = 4 * 1024"

text \<open>\<^verbatim>\<open>time.Duration\<close> counts nanoseconds.\<close>

definition Second :: int where "Second = 1000000000"
definition defaultHandshakeTimeout :: int where "defaultHandshakeTimeout = 5 * Second"
definition defaultDialTimeout :: int where "defaultDialTimeout = 5 * Second"

record PermessageDeflate =
  Enabled :: bool
  Level :: int
  Threshold :: int
  PoolSize :: int
  ServerContextTakeover :: bool
  ClientContextTakeover :: bool
  ServerMaxWindowBits :: int
  ClientMaxWindowBits :: int

text \<open>\<^verbatim>\<open>Config\<close>, \<^verbatim>\<open>ServerOption\<close> and \<^verbatim>\<open>ClientOption\<close> are three separate Go structs that
  declare many fields under the same names. The fields the three have in common are the
  record \<open>Settings\<close>, and the fields the two option structs have in common beyond those
  are \<open>OptionFields\<close>; each struct is the extension that adds its own fields, so every
  field keeps its Go name.\<close>

record Settings =
  WriteBufferSize :: int
  ReadAsyncEnabled :: bool
  ReadAsyncGoLimit :: int
  ReadMaxPayloadSize :: int
  ReadBufferSize :: int
  WriteMaxPayloadSize :: int
  CheckUtf8Enabled :: bool
  Logger :: "Logger option"
  Recovery :: "RecoveryFn option"

text \<open>\<open>readerPool\<close> holds the size of the readers the pool makes (\<open>None\<close>: no pool).
  \<open>ParallelEnabled\<close> is the flag the reader's file reads from its \<^verbatim>\<open>Config\<close>; option.go
  does not declare it, so a \<^verbatim>\<open>Config\<close> literal of option.go leaves it at its zero value.\<close>

record Config = Settings +
  readerPool :: "int option"
  ParallelEnabled :: bool

record OptionFields = Settings +
  PermessageDeflate :: PermessageDeflate
  TlsConfig :: "TlsConfig option"
  HandshakeTimeout :: int
  NewSession :: "NewSessionFn option"

record ServerOption = OptionFields +
  option_config :: "Config option"
    \<comment> \<open>the field \<^verbatim>\<open>config\<close> of \<^verbatim>\<open>ServerOption\<close>\<close>
  SubProtocols :: "string list"
  ResponseHeader :: "Header option"
  Authorize :: "AuthorizeFn option"

record ClientOption = OptionFields +
  Addr :: string
  RequestHeader :: "Header option"
  NewDialer :: "NewDialerFn option"

section \<open>The message reader\<close>

subsection \<open>Frame headers, messages and the connection\<close>

text \<open>The frame header as its getters show it. \<^verbatim>\<open>GetLengthCode\<close> is the 7-bit length code
  of the second header byte.\<close>

type_synonym maskKey = "byte \<times> byte \<times> byte \<times> byte"

record frameHeader =
  GetFIN :: bool
  GetRSV1 :: bool
  GetRSV2 :: bool
  GetRSV3 :: bool
  GetOpcode :: Opcode
  GetMask :: bool
  GetLengthCode :: "8 word"
  GetMaskKey :: maskKey

record Message =
  Opcode :: Opcode
  Data :: "byte list"

record continuationFrame =
  initialized :: bool
  opcode :: Opcode
  buffer :: "byte list"

text \<open>Modelled from the spec: \<^verbatim>\<open>continuationFrame.reset\<close> is not in the files. The data model
  names the state \<open>{initialized, opcode, buffer}\<close> and its reset; the reset state is the
  zero value of the three fields.\<close>

definition reset :: "continuationFrame \<Rightarrow> continuationFrame" where
  "reset cf = cf\<lparr>initialized := False, opcode := 0, buffer := []\<rparr>"

text \<open>What the handler and the collaborators outside the files are called with, in order.\<close>

datatype event =
    OnPing "byte list"
  | OnPong "byte list"
  | OnMessage Message
  | EmitClose "byte list"

text \<open>The header decoder \<^verbatim>\<open>frameHeader.Parse\<close> is not in the files, so what it yields is
  input: the buffered reader \<open>br\<close> is the sequence of frames still to come, each given by
  the outcome of \<^verbatim>\<open>Parse\<close> on it (an error, or the header and the content length) and by the
  bytes the stream holds after that header.\<close>

datatype wire =
    ParseError error
  | Frame frameHeader int "byte list"

record Conn =
  isServer :: bool
  subprotocol :: string
  config :: Config
  br :: "wire list"
  body :: "byte list"
    \<comment> \<open>the bytes of the stream between the header parsed last and the next header\<close>
  fh :: frameHeader
  continuationFrame :: continuationFrame
  events :: "event list"
  readQueue :: "Message list"
    \<comment> \<open>the messages handed to the parallel dispatch queue\<close>

definition Parse :: "Conn \<Rightarrow> (error + int) \<times> Conn" where
  "Parse c =
     (case br c of
        [] \<Rightarrow> (Inl ErrUnexpectedEOF, c)
      | ParseError e # rest \<Rightarrow> (Inl e, c\<lparr>br := rest\<rparr>)
      | Frame h n bs # rest \<Rightarrow> (Inr n, c\<lparr>br := rest, body := bs, fh := h\<rparr>))"

text \<open>Modelled from the spec: \<^verbatim>\<open>internal.ReadN\<close> is not in the files. The reader "reads
  payload bytes": it fills a slice of the given length from the stream, and fails when
  the stream ends first.\<close>

definition ReadN :: "Conn \<Rightarrow> nat \<Rightarrow> (error + byte list) \<times> Conn" where
  "ReadN c n =
     (if length (body c) < n then (Inl ErrUnexpectedEOF, c\<lparr>body := []\<rparr>)
      else (Inr (take n (body c)), c\<lparr>body := drop n (body c)\<rparr>))"

text \<open>Modelled from the spec: \<^verbatim>\<open>internal.MaskXOR\<close> is not in the files. "XOR payload with the
  4-byte key cycled by index mod 4."\<close>

fun key_at :: "maskKey \<Rightarrow> nat \<Rightarrow> byte" where
  "key_at (k0, k1, k2, k3) i =
     (if i mod 4 = 0 then k0 else if i mod 4 = 1 then k1 else if i mod 4 = 2 then k2 else k3)"

definition MaskXOR :: "byte list \<Rightarrow> maskKey \<Rightarrow> byte list" where
  "MaskXOR b key = map (\<lambda>(i, x). x XOR key_at key i) (enumerate 0 b)"

abbreviation ThresholdV1 :: "8 word" where "ThresholdV1 \<equiv> 125"

subsection \<open>checkMask, readControl, readFrame, ReadMessage\<close>

definition checkMask :: "Conn \<Rightarrow> bool \<Rightarrow> error option" where
  "checkMask c enabled =
     (if (isServer c \<and> \<not> enabled) \<or> (\<not> isServer c \<and> enabled)
      then Some (Status CloseProtocolError)
      else None)"

text \<open>\<^verbatim>\<open>Conn.emitClose\<close> is not in the files: the error it returns for a close payload is the
  parameter \<open>emitClose\<close>, and its call is recorded among the events.\<close>

definition readControl :: "(byte list \<Rightarrow> error option) \<Rightarrow> Conn \<Rightarrow> error option \<times> Conn" where
  "readControl emitClose c =
     (if \<not> GetFIN (fh c) then (Some (Status CloseProtocolError), c)
      else
        let n = GetLengthCode (fh c) in
        if n > ThresholdV1 then (Some (Status CloseProtocolError), c)
        else
          case (if n > 0
                then (case ReadN c (unat n) of
                        (Inl err, c1) \<Rightarrow> (Inl err, c1)
                      | (Inr p, c1) \<Rightarrow>
                          (Inr (if GetMask (fh c1) then MaskXOR p (GetMaskKey (fh c1)) else p), c1))
                else (Inr [], c)) of
            (Inl err, c1) \<Rightarrow> (Some err, c1)
          | (Inr payload, c1) \<Rightarrow>
              let opcode = GetOpcode (fh c1) in
              if opcode = OpcodePing then (None, c1\<lparr>events := events c1 @ [OnPing payload]\<rparr>)
              else if opcode = OpcodePong then (None, c1\<lparr>events := events c1 @ [OnPong payload]\<rparr>)
              else if opcode = OpcodeCloseConnection
                then (emitClose payload, c1\<lparr>events := events c1 @ [EmitClose payload]\<rparr>)
              else (Some (NewError CloseProtocolError (UnexpectedOpcode opcode)), c1))"

text \<open>\<^verbatim>\<open>readFrame\<close> returns \<^verbatim>\<open>(*Message, error)\<close>: \<open>Inl err\<close> is \<^verbatim>\<open>(nil, err)\<close>, \<open>Inr None\<close> is
  \<^verbatim>\<open>(nil, nil)\<close> and \<open>Inr (Some msg)\<close> is \<^verbatim>\<open>(msg, nil)\<close>. Slicing the pooled buffer with a
  negative content length panics. The pooling of the buffers is not modelled.\<close>

definition readFrame :: "(byte list \<Rightarrow> error option) \<Rightarrow> Conn \<Rightarrow> (error + Message option) \<times> Conn" where
  "readFrame emitClose c0 =
     (case Parse c0 of
        (Inl err, c) \<Rightarrow> (Inl err, c)
      | (Inr contentLength, c) \<Rightarrow>
          if contentLength > ReadMaxPayloadSize (config c) then (Inl (Status CloseMessageTooLarge), c)
          else if GetRSV1 (fh c) \<or> GetRSV2 (fh c) \<or> GetRSV3 (fh c)
            then (Inl (Status CloseProtocolError), c)
          else
            let maskEnabled = GetMask (fh c) in
            case checkMask c maskEnabled of
              Some err \<Rightarrow> (Inl err, c)
            | None \<Rightarrow>
                let opcode' = GetOpcode (fh c) in
                if \<not> isDataFrame opcode'
                then (case readControl emitClose c of
                        (Some err, c1) \<Rightarrow> (Inl err, c1)
                      | (None, c1) \<Rightarrow> (Inr None, c1))
                else
                  let fin = GetFIN (fh c) in
                  if contentLength < 0 then (Inl Panic, c)
                  else
                    case ReadN c (nat contentLength) of
                      (Inl err, c1) \<Rightarrow> (Inl err, c1)
                    | (Inr p0, c1) \<Rightarrow>
                        let p = (if maskEnabled then MaskXOR p0 (GetMaskKey (fh c1)) else p0) in
                        if opcode' \<noteq> OpcodeContinuation \<and> initialized (continuationFrame c1)
                          then (Inl (Status CloseProtocolError), c1)
                        else if fin \<and> opcode' \<noteq> OpcodeContinuation
                          then (Inr (Some \<lparr>Opcode = opcode', Data = p\<rparr>), c1)
                        else
                          let c2 = (if \<not> fin \<and> opcode' \<noteq> OpcodeContinuation
                                    then c1\<lparr>continuationFrame :=
                                           \<lparr>initialized = True, opcode = opcode', buffer = []\<rparr>\<rparr>
                                    else c1) in
                          if \<not> initialized (continuationFrame c2)
                            then (Inl (Status CloseProtocolError), c2)
                          else
                            let c3 = c2\<lparr>continuationFrame :=
                                         (continuationFrame c2)\<lparr>buffer := buffer (continuationFrame c2) @ p\<rparr>\<rparr> in
                            if int (length (buffer (continuationFrame c3))) > ReadMaxPayloadSize (config c3)
                              then (Inl (Status CloseMessageTooLarge), c3)
                            else if \<not> fin then (Inr None, c3)
                            else
                              let msg = \<lparr>Opcode = opcode (continuationFrame c3),
                                         Data = buffer (continuationFrame c3)\<rparr> in
                              (Inr (Some msg), c3\<lparr>continuationFrame := reset (continuationFrame c3)\<rparr>))"

text \<open>Every successful call of \<^verbatim>\<open>Parse\<close> takes a frame off the stream, so the loop of
  \<^verbatim>\<open>ReadMessage\<close> ends: on a stream with no frame left, \<^verbatim>\<open>Parse\<close> fails.\<close>

lemma Parse_Inr_br: "Parse c = (Inr n, c') \<Longrightarrow> length (br c') < length (br c)"
  by (auto simp: Parse_def split: list.splits wire.splits)

lemma ReadN_br: "ReadN c n = (r, c') \<Longrightarrow> br c' = br c"
  by (auto simp: ReadN_def split: if_splits)

lemma readControl_br: "readControl ec c = (r, c') \<Longrightarrow> br c' = br c"
  by (auto simp: readControl_def Let_def ReadN_def split: if_splits prod.splits sum.splits)

lemma readFrame_Inr_br: "readFrame ec c = (Inr r, c') \<Longrightarrow> length (br c') < length (br c)"
  by (auto simp: readFrame_def Let_def
      split: if_splits prod.splits sum.splits option.splits
      dest!: Parse_Inr_br ReadN_br readControl_br)

function ReadMessage :: "(byte list \<Rightarrow> error option) \<Rightarrow> Conn \<Rightarrow> (error + Message) \<times> Conn" where
  "ReadMessage emitClose c =
     (case readFrame emitClose c of
        (Inl err, c1) \<Rightarrow> (Inl err, c1)
      | (Inr (Some msg), c1) \<Rightarrow> (Inr msg, c1)
      | (Inr None, c1) \<Rightarrow> ReadMessage emitClose c1)"
  by pat_completeness auto
termination
  by (relation "measure (\<lambda>(ec, c). length (br c))") (auto dest: readFrame_Inr_br [OF sym])

subsection \<open>dispatch, emitMessage, readMessage\<close>

text \<open>The handler's \<^verbatim>\<open>OnMessage\<close> is the user's; its call is recorded. The deferred
  \<^verbatim>\<open>Recovery\<close> only acts when the handler panics.\<close>

definition dispatch :: "Conn \<Rightarrow> Message \<Rightarrow> error option \<times> Conn" where
  "dispatch c msg = (None, c\<lparr>events := events c @ [OnMessage msg]\<rparr>)"

text \<open>Modelled from the spec: \<^verbatim>\<open>internal.CheckEncoding\<close> is not in the files. "If
  \<^verbatim>\<open>CheckUtf8Enabled\<close> and opcode is Text, validate UTF-8 across the reassembled payload."
  The UTF-8 validation routine is an external collaborator: the parameter \<open>utf8\<close>.\<close>

definition CheckEncoding :: "(byte list \<Rightarrow> bool) \<Rightarrow> bool \<Rightarrow> 8 word \<Rightarrow> byte list \<Rightarrow> bool" where
  "CheckEncoding utf8 enabled opcode' payload =
     (if enabled \<and> opcode' = OpcodeText then utf8 payload else True)"

text \<open>Modelled from the spec: the queue behind \<^verbatim>\<open>readQueue.Go\<close> is not in the files. The
  reader dispatch queue "admits parallel \<^verbatim>\<open>OnMessage\<close> invocations": the message is handed
  to the queue, which calls \<^verbatim>\<open>dispatch\<close> on it later, and no error comes back.\<close>

definition readQueue_Go :: "Conn \<Rightarrow> Message \<Rightarrow> error option \<times> Conn" where
  "readQueue_Go c msg = (None, c\<lparr>readQueue := readQueue c @ [msg]\<rparr>)"

definition emitMessage :: "(byte list \<Rightarrow> bool) \<Rightarrow> Conn \<Rightarrow> Message \<Rightarrow> error option \<times> Conn" where
  "emitMessage utf8 c msg =
     (if \<not> CheckEncoding utf8 (CheckUtf8Enabled (config c)) (Opcode msg) (Data msg)
      then (Some (NewError CloseUnsupportedData ErrTextEncoding), c)
      else if ParallelEnabled (config c) then readQueue_Go c msg
      else dispatch c msg)"

definition readMessage ::
    "(byte list \<Rightarrow> bool) \<Rightarrow> (byte list \<Rightarrow> error option) \<Rightarrow> Conn \<Rightarrow> error option \<times> Conn" where
  "readMessage utf8 emitClose c =
     (case readFrame emitClose c of
        (Inl err, c1) \<Rightarrow> (Some err, c1)
      | (Inr (Some msg), c1) \<Rightarrow> emitMessage utf8 c1 msg
      | (Inr None, c1) \<Rightarrow> (None, c1))"

section \<open>Option initialisation (option.go)\<close>

text \<open>The zero values \<^verbatim>\<open>new(ServerOption)\<close> and \<^verbatim>\<open>new(ClientOption)\<close> allocate.\<close>

definition new_PermessageDeflate :: PermessageDeflate where
  "new_PermessageDeflate =
     \<lparr>Enabled = False, Level = 0, Threshold = 0, PoolSize = 0,
      ServerContextTakeover = False, ClientContextTakeover = False,
      ServerMaxWindowBits = 0, ClientMaxWindowBits = 0\<rparr>"

definition new_ServerOption :: ServerOption where
  "new_ServerOption =
     \<lparr>WriteBufferSize = 0, ReadAsyncEnabled = False, ReadAsyncGoLimit = 0,
      ReadMaxPayloadSize = 0, ReadBufferSize = 0, WriteMaxPayloadSize = 0,
      CheckUtf8Enabled = False, Logger = None, Recovery = None,
      PermessageDeflate = new_PermessageDeflate, TlsConfig = None, HandshakeTimeout = 0,
      NewSession = None,
      option_config = None, SubProtocols = [], ResponseHeader = None, Authorize = None\<rparr>"

definition new_ClientOption :: ClientOption where
  "new_ClientOption =
     \<lparr>WriteBufferSize = 0, ReadAsyncEnabled = False, ReadAsyncGoLimit = 0,
      ReadMaxPayloadSize = 0, ReadBufferSize = 0, WriteMaxPayloadSize = 0,
      CheckUtf8Enabled = False, Logger = None, Recovery = None,
      PermessageDeflate = new_PermessageDeflate, TlsConfig = None, HandshakeTimeout = 0,
      NewSession = None,
      Addr = [], RequestHeader = None, NewDialer = None\<rparr>"

text \<open>Modelled from the spec: the header names of \<^verbatim>\<open>internal.Upgrade\<close>, \<^verbatim>\<open>internal.Connection\<close>
  and their siblings are not in the files. They are the names the handshake section lists
  (\<^verbatim>\<open>Connection: Upgrade\<close>, \<^verbatim>\<open>Upgrade: websocket\<close>, the \<^verbatim>\<open>Sec-WebSocket-*\<close> headers); a name
  stands for its canonical form, under which \<^verbatim>\<open>http.Header\<close> stores it.\<close>

definition Upgrade_Key :: string where "Upgrade_Key = ''Upgrade''"
definition Upgrade_Val :: string where "Upgrade_Val = ''websocket''"
definition Connection_Key :: string where "Connection_Key = ''Connection''"
definition Connection_Val :: string where "Connection_Val = ''Upgrade''"
definition SecWebSocketAccept_Key :: string where "SecWebSocketAccept_Key = ''Sec-WebSocket-Accept''"
definition SecWebSocketExtensions_Key :: string where
  "SecWebSocketExtensions_Key = ''Sec-WebSocket-Extensions''"
definition SecWebSocketProtocol_Key :: string where
  "SecWebSocketProtocol_Key = ''Sec-WebSocket-Protocol''"

text \<open>\<^verbatim>\<open>Del\<close> on a \<^verbatim>\<open>nil\<close> header does nothing.\<close>

definition deleteProtectedHeaders :: "ServerOption \<Rightarrow> ServerOption" where
  "deleteProtectedHeaders c =
     c\<lparr>ResponseHeader :=
         map_option
           (\<lambda>h. Del (Del (Del (Del (Del h Upgrade_Key) Connection_Key) SecWebSocketAccept_Key)
                     SecWebSocketExtensions_Key) SecWebSocketProtocol_Key)
           (ResponseHeader c)\<rparr>"

text \<open>Modelled from the spec: \<^verbatim>\<open>internal.ToBinaryNumber\<close> is not in the files. "Pool size is
  coerced to the next power of two": the least power of two that is at least \<open>n\<close>, found
  by doubling from 1.\<close>

function doubling :: "nat \<Rightarrow> nat \<Rightarrow> nat" where
  "doubling x n = (if 0 < x \<and> x < n then doubling (2 * x) n else x)"
  by pat_completeness auto
termination
  by (relation "measure (\<lambda>(x, n). n - x)") auto

declare doubling.simps [simp del]

definition ToBinaryNumber :: "int \<Rightarrow> int" where
  "ToBinaryNumber n = int (doubling 1 (nat n))"

definition initServerOption :: "ServerOption option \<Rightarrow> ServerOption" where
  "initServerOption c0 =
     (let c = (case c0 of None \<Rightarrow> new_ServerOption | Some v \<Rightarrow> v);
          c = (if ReadMaxPayloadSize c \<le> 0 then c\<lparr>ReadMaxPayloadSize := defaultReadMaxPayloadSize\<rparr> else c);
          c = (if ReadAsyncGoLimit c \<le> 0 then c\<lparr>ReadAsyncGoLimit := defaultReadAsyncGoLimit\<rparr> else c);
          c = (if ReadBufferSize c \<le> 0 then c\<lparr>ReadBufferSize := defaultReadBufferSize\<rparr> else c);
          c = (if WriteMaxPayloadSize c \<le> 0 then c\<lparr>WriteMaxPayloadSize := defaultWriteMaxPayloadSize\<rparr> else c);
          c = (if WriteBufferSize c \<le> 0 then c\<lparr>WriteBufferSize := defaultWriteBufferSize\<rparr> else c);
          c = (if Authorize c = None then c\<lparr>Authorize := Some AuthorizeAlways\<rparr> else c);
          c = (if NewSession c = None then c\<lparr>NewSession := Some NewSmap\<rparr> else c);
          c = (if ResponseHeader c = None then c\<lparr>ResponseHeader := Some Map.empty\<rparr> else c);
          c = (if HandshakeTimeout c \<le> 0 then c\<lparr>HandshakeTimeout := defaultHandshakeTimeout\<rparr> else c);
          c = (if Logger c = None then c\<lparr>Logger := Some defaultLogger\<rparr> else c);
          c = (if Recovery c = None then c\<lparr>Recovery := Some RecoveryNoop\<rparr> else c);
          c = (if Enabled (PermessageDeflate c)
               then
                 (let d = PermessageDeflate c;
                      d = (if ServerMaxWindowBits d < 8 \<or> ServerMaxWindowBits d > 15
                           then d\<lparr>ServerMaxWindowBits := 15\<rparr> else d);
                      d = (if ClientMaxWindowBits d < 8 \<or> ClientMaxWindowBits d > 15
                           then d\<lparr>ClientMaxWindowBits := 15\<rparr> else d);
                      d = (if Threshold d \<le> 0 then d\<lparr>Threshold := defaultCompressThreshold\<rparr> else d);
                      d = (if Level d = 0 then d\<lparr>Level := defaultCompressLevel\<rparr> else d);
                      d = (if PoolSize d \<le> 0 then d\<lparr>PoolSize := defaultCompressorPoolSize\<rparr> else d);
                      d = d\<lparr>PoolSize := ToBinaryNumber (PoolSize d)\<rparr>
                  in c\<lparr>PermessageDeflate := d\<rparr>)
               else c);
          c = deleteProtectedHeaders c;
          c = c\<lparr>option_config := Some
                 \<lparr>WriteBufferSize = WriteBufferSize c,
                  ReadAsyncEnabled = ReadAsyncEnabled c,
                  ReadAsyncGoLimit = ReadAsyncGoLimit c,
                  ReadMaxPayloadSize = ReadMaxPayloadSize c,
                  ReadBufferSize = ReadBufferSize c,
                  WriteMaxPayloadSize = WriteMaxPayloadSize c,
                  CheckUtf8Enabled = CheckUtf8Enabled c,
                  Logger = Logger c,
                  Recovery = Recovery c,
                  readerPool = Some (ReadBufferSize c),
                  ParallelEnabled = False\<rparr>\<rparr>
      in c)"

definition initClientOption :: "ClientOption option \<Rightarrow> ClientOption" where
  "initClientOption c0 =
     (let c = (case c0 of None \<Rightarrow> new_ClientOption | Some v \<Rightarrow> v);
          c = (if ReadMaxPayloadSize c \<le> 0 then c\<lparr>ReadMaxPayloadSize := defaultReadMaxPayloadSize\<rparr> else c);
          c = (if ReadAsyncGoLimit c \<le> 0 then c\<lparr>ReadAsyncGoLimit := defaultReadAsyncGoLimit\<rparr> else c);
          c = (if ReadBufferSize c \<le> 0 then c\<lparr>ReadBufferSize := defaultReadBufferSize\<rparr> else c);
          c = (if WriteMaxPayloadSize c \<le> 0 then c\<lparr>WriteMaxPayloadSize := defaultWriteMaxPayloadSize\<rparr> else c);
          c = (if WriteBufferSize c \<le> 0 then c\<lparr>WriteBufferSize := defaultWriteBufferSize\<rparr> else c);
          c = (if HandshakeTimeout c \<le> 0 then c\<lparr>HandshakeTimeout := defaultHandshakeTimeout\<rparr> else c);
          c = (if RequestHeader c = None then c\<lparr>RequestHeader := Some Map.empty\<rparr> else c);
          c = (if NewDialer c = None then c\<lparr>NewDialer := Some (NetDialer defaultDialTimeout)\<rparr> else c);
          c = (if NewSession c = None then c\<lparr>NewSession := Some NewSmap\<rparr> else c);
          c = (if Logger c = None then c\<lparr>Logger := Some defaultLogger\<rparr> else c);
          c = (if Recovery c = None then c\<lparr>Recovery := Some RecoveryNoop\<rparr> else c);
          c = (if Enabled (PermessageDeflate c)
               then
                 (let d = PermessageDeflate c;
                      d = (if ServerMaxWindowBits d < 8 \<or> ServerMaxWindowBits d > 15
                           then d\<lparr>ServerMaxWindowBits := 15\<rparr> else d);
                      d = (if ClientMaxWindowBits d < 8 \<or> ClientMaxWindowBits d > 15
                           then d\<lparr>ClientMaxWindowBits := 15\<rparr> else d);
                      d = (if Threshold d \<le> 0 then d\<lparr>Threshold := defaultCompressThreshold\<rparr> else d);
                      d = (if Level d = 0 then d\<lparr>Level := defaultCompressLevel\<rparr> else d);
                      d = d\<lparr>PoolSize := 1\<rparr>
                  in c\<lparr>PermessageDeflate := d\<rparr>)
               else c)
      in c)"

definition getConfig :: "ClientOption \<Rightarrow> Config" where
  "getConfig c =
     \<lparr>WriteBufferSize = WriteBufferSize c,
      ReadAsyncEnabled = ReadAsyncEnabled c,
      ReadAsyncGoLimit = ReadAsyncGoLimit c,
      ReadMaxPayloadSize = ReadMaxPayloadSize c,
      ReadBufferSize = ReadBufferSize c,
      WriteMaxPayloadSize = WriteMaxPayloadSize c,
      CheckUtf8Enabled = CheckUtf8Enabled c,
      Logger = Logger c,
      Recovery = Recovery c,
      readerPool = None,
      ParallelEnabled = False\<rparr>"

section \<open>The client handshake (client.go)\<close>

text \<open>The helpers of the package \<^verbatim>\<open>internal\<close> and of the Go library that the handshake calls
  are not in the files; they are parameters. \<^verbatim>\<open>ComputeAcceptKey\<close> is the helper the
  specification describes as base64(SHA1(key + GUID)).\<close>

record internal =
  HttpHeaderContains :: "string \<Rightarrow> string \<Rightarrow> bool"
  EqualFold :: "string \<Rightarrow> string \<Rightarrow> bool"
  ComputeAcceptKey :: "string \<Rightarrow> string"
  Split :: "string \<Rightarrow> string \<Rightarrow> string list"

text \<open>Modelled from the spec: \<^verbatim>\<open>internal.GetIntersectionElem\<close> is not in the files. The
  subprotocol is selected "by intersecting" the two lists, "first match by client order";
  with no common element the result is the empty string.\<close>

definition GetIntersectionElem :: "string list \<Rightarrow> string list \<Rightarrow> string" where
  "GetIntersectionElem a b = (case filter (\<lambda>x. x \<in> set b) a of [] \<Rightarrow> [] | x # _ \<Rightarrow> x)"

record Response =
  StatusCode :: int
  Header :: Header

abbreviation StatusSwitchingProtocols :: int where "StatusSwitchingProtocols \<equiv> 101"

record connector =
  option :: ClientOption
  secWebsocketKey :: string

text \<open>What the network contributes to one handshake: the random key \<^verbatim>\<open>request\<close> generates,
  what sending the request and reading the response yields (an error, or the response and
  the stream behind it), and the result of clearing the deadline afterwards.\<close>

record exchange =
  generated_key :: string
  outcome :: "error + Response \<times> wire list"
  deadline_cleared :: "error option"

definition request :: "exchange \<Rightarrow> connector \<Rightarrow> (error + Response \<times> wire list) \<times> connector" where
  "request x c =
     (let c1 = (if secWebsocketKey c = [] then c\<lparr>secWebsocketKey := generated_key x\<rparr> else c)
      in (outcome x, c1))"

definition checkHeaders :: "internal \<Rightarrow> connector \<Rightarrow> Response \<Rightarrow> error option" where
  "checkHeaders I c resp =
     (if StatusCode resp \<noteq> StatusSwitchingProtocols then Some ErrHandshake
      else if \<not> HttpHeaderContains I (Get (Header resp) Connection_Key) Connection_Val
        then Some ErrHandshake
      else if \<not> EqualFold I (Get (Header resp) Upgrade_Key) Upgrade_Val then Some ErrHandshake
      else if Get (Header resp) SecWebSocketAccept_Key \<noteq> ComputeAcceptKey I (secWebsocketKey c)
        then Some ErrHandshake
      else None)"

text \<open>\<^verbatim>\<open>Get\<close> on a \<^verbatim>\<open>nil\<close> header returns the empty string.\<close>

definition getSubProtocol :: "internal \<Rightarrow> connector \<Rightarrow> Response \<Rightarrow> error + string" where
  "getSubProtocol I c resp =
     (let a = Split I (case RequestHeader (option c) of
                         None \<Rightarrow> []
                       | Some h \<Rightarrow> Get h SecWebSocketProtocol_Key) '','';
          b = Split I (Get (Header resp) SecWebSocketProtocol_Key) '','';
          subprotocol' = GetIntersectionElem a b
      in if length a > 0 \<and> subprotocol' = [] then Inl ErrSubprotocolNegotiation
         else Inr subprotocol')"

definition new_frameHeader :: frameHeader where
  "new_frameHeader =
     \<lparr>GetFIN = False, GetRSV1 = False, GetRSV2 = False, GetRSV3 = False, GetOpcode = 0,
      GetMask = False, GetLengthCode = 0, GetMaskKey = (0, 0, 0, 0)\<rparr>"

definition new_continuationFrame :: continuationFrame where
  "new_continuationFrame = \<lparr>initialized = False, opcode = 0, buffer = []\<rparr>"

text \<open>\<^verbatim>\<open>handshake\<close> returns \<^verbatim>\<open>(*Conn, *http.Response, error)\<close>; calling a \<^verbatim>\<open>nil\<close> function
  does not return but panics, which is the outcome \<open>Inl NilFunctionCalled\<close>. The fields
  of the connection that the reader does not use (session, transport, handler, close flag,
  the queues' capacities) are left out.\<close>

datatype fault = NilFunctionCalled

definition handshake ::
    "internal \<Rightarrow> exchange \<Rightarrow> connector
       \<Rightarrow> fault + Conn option \<times> Response option \<times> error option" where
  "handshake I x c =
     (case request x c of
        (Inl err, c1) \<Rightarrow> Inr (None, None, Some err)
      | (Inr (resp, br'), c1) \<Rightarrow>
          (case checkHeaders I c1 resp of
             Some err \<Rightarrow> Inr (None, Some resp, Some err)
           | None \<Rightarrow>
               (case getSubProtocol I c1 resp of
                  Inl err \<Rightarrow> Inr (None, Some resp, Some err)
                | Inr subprotocol' \<Rightarrow>
                    (case NewSession (option c1) of
                       None \<Rightarrow> Inl NilFunctionCalled
                     | Some ss \<Rightarrow>
                         Inr (Some \<lparr>isServer = False,
                                     subprotocol = subprotocol',
                                     config = getConfig (option c1),
                                     br = br',
                                     body = [],
                                     fh = new_frameHeader,
                                     continuationFrame = new_continuationFrame,
                                     events = [],
                                     readQueue = []\<rparr>,
                              Some resp, deadline_cleared x)))))"

text \<open>The URL parser, the dialer and the transport are outside the files: \<open>url_Parse\<close> is
  the result of \<^verbatim>\<open>url.Parse\<close>, \<open>call_NewDialer\<close> the error of calling the dialer factory,
  \<open>Dial\<close> the error of dialling the URL's address, with or without TLS.\<close>

record URL =
  Scheme :: string
  Hostname :: string

record world =
  url_Parse :: "string \<Rightarrow> error + URL"
  call_NewDialer :: "NewDialerFn \<Rightarrow> error option"
  Dial :: "URL \<Rightarrow> bool \<Rightarrow> error option"
  exchange :: exchange

definition NewClient ::
    "internal \<Rightarrow> world \<Rightarrow> ClientOption option
       \<Rightarrow> fault + Conn option \<times> Response option \<times> error option" where
  "NewClient I w option0 =
     (let option' = initClientOption option0;
          c = \<lparr>option = option', secWebsocketKey = []\<rparr>
      in case url_Parse w (Addr option') of
           Inl err \<Rightarrow> Inr (None, None, Some err)
         | Inr URL' \<Rightarrow>
             if Scheme URL' \<noteq> ''ws'' \<and> Scheme URL' \<noteq> ''wss''
             then Inr (None, None, Some ErrUnsupportedProtocol)
             else
               let tlsEnabled = (Scheme URL' = ''wss'') in
               case NewDialer option' of
                 None \<Rightarrow> Inl NilFunctionCalled
               | Some newDialer \<Rightarrow>
                   (case call_NewDialer w newDialer of
                      Some err \<Rightarrow> Inr (None, None, Some err)
                    | None \<Rightarrow>
                        (case Dial w URL' tlsEnabled of
                           Some err \<Rightarrow> Inr (None, None, Some err)
                         | None \<Rightarrow>
                             let c = (if tlsEnabled
                                      then
                                        (let t = (case TlsConfig option' of
                                                    None \<Rightarrow> \<lparr>ServerName = []\<rparr>
                                                  | Some t0 \<Rightarrow> t0);
                                             t = (if ServerName t = []
                                                  then t\<lparr>ServerName := Hostname URL'\<rparr> else t)
                                         in c\<lparr>option := option'\<lparr>TlsConfig := Some t\<rparr>\<rparr>)
                                      else c)
                             in handshake I (exchange w) c)))"

definition NewClientFromConn ::
    "internal \<Rightarrow> exchange \<Rightarrow> ClientOption option
       \<Rightarrow> fault + Conn option \<times> Response option \<times> error option" where
  "NewClientFromConn I conn option0 =
     (let option' = initClientOption option0;
          c = \<lparr>option = option', secWebsocketKey = []\<rparr>
      in handshake I conn c)"

section \<open>Vocabulary of the properties\<close>

text \<open>A frame as it reaches the reader: its header and the payload bytes as they are on the
  wire. \<open>on_wire\<close> is the complete frame on the stream (the declared content length is
  the number of bytes that follow), \<open>payload\<close> the bytes it carries once the mask is
  taken off, \<open>passes\<close> says that the header has no reserved bit set and a mask bit that
  fits the role of the connection, and \<open>arrived\<close> is the connection once the frame has
  been taken off the stream.\<close>

type_synonym frame = "frameHeader \<times> byte list"

definition on_wire :: "frame \<Rightarrow> wire" where
  "on_wire f = Frame (fst f) (int (length (snd f))) (snd f)"

definition payload :: "frame \<Rightarrow> byte list" where
  "payload f = (if GetMask (fst f) then MaskXOR (snd f) (GetMaskKey (fst f)) else snd f)"

definition passes :: "Conn \<Rightarrow> frameHeader \<Rightarrow> bool" where
  "passes c h = (\<not> GetRSV1 h \<and> \<not> GetRSV2 h \<and> \<not> GetRSV3 h \<and> GetMask h = isServer c)"

definition arrived :: "Conn \<Rightarrow> frameHeader \<Rightarrow> wire list \<Rightarrow> Conn" where
  "arrived c h rest = c\<lparr>br := rest, body := [], fh := h\<rparr>"

text \<open>The three combinations of opcode, FIN and continuation state that the reader accepts
  for a data frame.\<close>

definition sanctioned :: "Opcode \<Rightarrow> bool \<Rightarrow> bool \<Rightarrow> bool" where
  "sanctioned op fin active =
     (((op = OpcodeText \<or> op = OpcodeBinary) \<and> fin \<and> \<not> active)
      \<or> ((op = OpcodeText \<or> op = OpcodeBinary) \<and> \<not> fin \<and> \<not> active)
      \<or> (op = OpcodeContinuation \<and> active))"

text \<open>The connection after \<open>n\<close> successive calls of \<^verbatim>\<open>readFrame\<close>, whatever each returned.\<close>

fun calls :: "(byte list \<Rightarrow> error option) \<Rightarrow> nat \<Rightarrow> Conn \<Rightarrow> Conn" where
  "calls ec 0 c = c"
| "calls ec (Suc n) c = calls ec n (snd (readFrame ec c))"

text \<open>The close code an error carries, if any.\<close>

fun closeCode :: "error \<Rightarrow> StatusCode option" where
  "closeCode (Status s) = Some s"
| "closeCode (NewError s e) = Some s"
| "closeCode e = None"

text \<open>The opcode recorded by an open continuation is Text or Binary.\<close>

definition recorded_ok :: "Conn \<Rightarrow> bool" where
  "recorded_ok c =
     (initialized (continuationFrame c) \<longrightarrow>
        opcode (continuationFrame c) = OpcodeText \<or> opcode (continuationFrame c) = OpcodeBinary)"

definition unknown_opcode :: "Opcode \<Rightarrow> bool" where
  "unknown_opcode op =
     (op \<notin> {OpcodeContinuation, OpcodeText, OpcodeBinary,
             OpcodeCloseConnection, OpcodePing, OpcodePong})"

subsection \<open>Sample connections and frames\<close>

definition sample_config :: Config where
  "sample_config =
     \<lparr>WriteBufferSize = 4096, ReadAsyncEnabled = False, ReadAsyncGoLimit = 8,
      ReadMaxPayloadSize = 1024, ReadBufferSize = 4096, WriteMaxPayloadSize = 16777216,
      CheckUtf8Enabled = True, Logger = Some defaultLogger, Recovery = Some RecoveryNoop,
      readerPool = Some 4096, ParallelEnabled = False\<rparr>"

text \<open>A server connection that has read nothing yet, with the given frames on its stream.\<close>

definition fresh_server :: "wire list \<Rightarrow> Conn" where
  "fresh_server ws =
     \<lparr>isServer = True, subprotocol = [], config = sample_config, br = ws, body = [],
      fh = new_frameHeader, continuationFrame = new_continuationFrame,
      events = [], readQueue = []\<rparr>"

text \<open>A frame as a client sends it: no reserved bit, masked with a key.\<close>

definition sample_key :: maskKey where
  "sample_key = (55, 250, 33, 61)"

definition client_frame :: "bool \<Rightarrow> Opcode \<Rightarrow> byte list \<Rightarrow> frame" where
  "client_frame fin op p =
     (\<lparr>GetFIN = fin, GetRSV1 = False, GetRSV2 = False, GetRSV3 = False, GetOpcode = op,
       GetMask = True, GetLengthCode = of_nat (length p), GetMaskKey = sample_key\<rparr>,
      MaskXOR p sample_key)"

text \<open>A server connection on which a Text message is open, holding one byte so far.\<close>

definition text_open :: "wire list \<Rightarrow> Conn" where
  "text_open ws =
     (fresh_server ws)
       \<lparr>continuationFrame := \<lparr>initialized = True, opcode = OpcodeText, buffer = [104]\<rparr>\<rparr>"

text \<open>A stand-in for the UTF-8 validation routine: it accepts the ASCII strings.\<close>

definition sample_utf8 :: "byte list \<Rightarrow> bool" where
  "sample_utf8 p = list_all (\<lambda>b. b < 128) p"

definition no_close_error :: "byte list \<Rightarrow> error option" where
  "no_close_error p = None"

section \<open>Properties of the message reader\<close>

subsection \<open>Auxiliary facts\<close>

declare ReadMessage.simps [simp del]

lemma length_MaskXOR [simp]: "length (MaskXOR b k) = length b"
  by (simp add: MaskXOR_def)

lemma Parse_cases:
  assumes "Parse c = (r, c')"
  obtains "br c = []" "r = Inl ErrUnexpectedEOF" "c' = c"
  | e rest where "br c = ParseError e # rest" "r = Inl e" "c' = c\<lparr>br := rest\<rparr>"
  | h n bs rest where "br c = Frame h n bs # rest" "r = Inr n" "c' = c\<lparr>br := rest, body := bs, fh := h\<rparr>"
  using assms by (auto simp: Parse_def split: list.splits wire.splits)

lemma Parse_keeps:
  "Parse c = (r, c') \<Longrightarrow>
     config c' = config c \<and> isServer c' = isServer c \<and> continuationFrame c' = continuationFrame c"
  by (erule Parse_cases) auto

lemma ReadN_keeps:
  "ReadN c n = (r, c') \<Longrightarrow>
     config c' = config c \<and> isServer c' = isServer c \<and> continuationFrame c' = continuationFrame c
     \<and> fh c' = fh c"
  by (auto simp: ReadN_def split: if_splits)

lemma ReadN_Inr_length: "ReadN c n = (Inr p, c') \<Longrightarrow> length p = n"
  by (auto simp: ReadN_def split: if_splits)

lemma readControl_keeps:
  "readControl ec c = (r, c') \<Longrightarrow>
     config c' = config c \<and> isServer c' = isServer c \<and> continuationFrame c' = continuationFrame c
     \<and> fh c' = fh c"
  by (auto simp: readControl_def Let_def ReadN_def split: if_splits prod.splits sum.splits)

text \<open>What a call of \<^verbatim>\<open>readFrame\<close> can do to the continuation state, by the way it returns.\<close>

lemma readFrame_effect:
  assumes "readFrame ec c = (r, c')"
  shows "config c' = config c \<and> isServer c' = isServer c \<and>
    (let cf = continuationFrame c; cf' = continuationFrame c'; h = fh c' in
     (case r of
        Inl e \<Rightarrow> initialized cf' = initialized cf \<and> opcode cf' = opcode cf
      | Inr None \<Rightarrow>
          (cf' = cf)
          \<or> (\<not> initialized cf \<and> (GetOpcode h = OpcodeText \<or> GetOpcode h = OpcodeBinary)
              \<and> \<not> GetFIN h \<and> initialized cf' \<and> opcode cf' = GetOpcode h)
          \<or> (initialized cf \<and> GetOpcode h = OpcodeContinuation \<and> \<not> GetFIN h
              \<and> initialized cf' \<and> opcode cf' = opcode cf)
      | Inr (Some m) \<Rightarrow>
          (\<not> initialized cf \<and> cf' = cf \<and> (GetOpcode h = OpcodeText \<or> GetOpcode h = OpcodeBinary)
              \<and> GetFIN h \<and> Opcode m = GetOpcode h
              \<and> int (length (Data m)) \<le> ReadMaxPayloadSize (config c))
          \<or> (initialized cf \<and> GetOpcode h = OpcodeContinuation \<and> GetFIN h
              \<and> \<not> initialized cf' \<and> Opcode m = opcode cf
              \<and> int (length (Data m)) \<le> ReadMaxPayloadSize (config c))))"
proof -
  obtain r0 c0 where P: "Parse c = (r0, c0)" by (cases "Parse c")
  note k0 = Parse_keeps [OF P]
  show ?thesis
  proof (cases r0)
    case (Inl e)
    with assms P k0 show ?thesis by (auto simp: readFrame_def)
  next
    case (Inr n)
    show ?thesis
    proof (cases "isDataFrame (GetOpcode (fh c0))")
      case False
      obtain rc cc where C: "readControl ec c0 = (rc, cc)" by (cases "readControl ec c0")
      note kc = readControl_keeps [OF C]
      from assms P Inr False C k0 kc show ?thesis
        by (auto simp: readFrame_def Let_def split: if_splits option.splits)
    next
      case True
      obtain rn cn where N: "ReadN c0 (nat n) = (rn, cn)" by (cases "ReadN c0 (nat n)")
      note kn = ReadN_keeps [OF N]
      show ?thesis
      proof (cases rn)
        case (Inl e)
        from assms P Inr True N Inl k0 kn show ?thesis
          by (auto simp: readFrame_def Let_def split: if_splits option.splits)
      next
        case (Inr p)
        have lp: "length p = nat n" using N Inr by (simp add: ReadN_Inr_length)
        from assms P \<open>r0 = Inr n\<close> True N Inr k0 kn lp show ?thesis
          by (auto simp: readFrame_def Let_def reset_def isDataFrame_def
              split: if_splits option.splits)
      qed
    qed
  qed
qed

lemma readFrame_recorded_ok:
  assumes "recorded_ok c"
  shows "recorded_ok (snd (readFrame ec c))"
proof -
  obtain r c' where R: "readFrame ec c = (r, c')" by (cases "readFrame ec c")
  from readFrame_effect [OF R] assms show ?thesis
    by (cases r) (auto simp: R recorded_ok_def Let_def split: option.splits)
qed

lemma calls_recorded_ok: "recorded_ok c \<Longrightarrow> recorded_ok (calls ec n c)"
  by (induction n arbitrary: c) (auto intro: readFrame_recorded_ok)

lemma ReadMessage_bounds:
  "recorded_ok c \<Longrightarrow> ReadMessage ec c = (Inr m, c') \<Longrightarrow>
     int (length (Data m)) \<le> ReadMaxPayloadSize (config c)
     \<and> (Opcode m = OpcodeText \<or> Opcode m = OpcodeBinary)"
proof (induction ec c rule: ReadMessage.induct)
  case (1 ec c)
  obtain r c1 where R: "readFrame ec c = (r, c1)" by (cases "readFrame ec c")
  note eff = readFrame_effect [OF R]
  show ?case
  proof (cases r)
    case (Inl e)
    with "1.prems" R show ?thesis by (subst (asm) ReadMessage.simps) simp
  next
    case (Inr mo)
    show ?thesis
    proof (cases mo)
      case None
      have ok1: "recorded_ok c1"
        using readFrame_recorded_ok [OF "1.prems"(1), of ec] R by simp
      have "ReadMessage ec c1 = (Inr m, c')"
        using "1.prems"(2) R Inr None by (subst (asm) ReadMessage.simps) simp
      from "1.IH" [OF R [symmetric] Inr None ok1 this] eff show ?thesis by simp
    next
      case (Some m')
      have "m' = m" using "1.prems"(2) R Inr Some by (subst (asm) ReadMessage.simps) simp
      with eff Inr Some "1.prems"(1) show ?thesis
        by (auto simp: recorded_ok_def Let_def)
    qed
  qed
qed

lemma readFrame_too_large:
  "br c = Frame h n bs # rest \<Longrightarrow> ReadMaxPayloadSize (config c) < n \<Longrightarrow>
     readFrame ec c = (Inl (Status CloseMessageTooLarge), c\<lparr>br := rest, body := bs, fh := h\<rparr>)"
  by (simp add: readFrame_def Parse_def)

lemma readFrame_reserved:
  "br c = Frame h n bs # rest \<Longrightarrow> n \<le> ReadMaxPayloadSize (config c) \<Longrightarrow>
   GetRSV1 h \<or> GetRSV2 h \<or> GetRSV3 h \<Longrightarrow>
     readFrame ec c = (Inl (Status CloseProtocolError), c\<lparr>br := rest, body := bs, fh := h\<rparr>)"
  by (auto simp add: readFrame_def Parse_def)

lemma readFrame_mask:
  "br c = Frame h n bs # rest \<Longrightarrow> n \<le> ReadMaxPayloadSize (config c) \<Longrightarrow>
   \<not> GetRSV1 h \<Longrightarrow> \<not> GetRSV2 h \<Longrightarrow> \<not> GetRSV3 h \<Longrightarrow> GetMask h \<noteq> isServer c \<Longrightarrow>
     readFrame ec c = (Inl (Status CloseProtocolError), c\<lparr>br := rest, body := bs, fh := h\<rparr>)"
  by (auto simp add: readFrame_def Parse_def checkMask_def)

lemma readControl_fragmented_or_long:
  "\<not> GetFIN (fh c) \<or> GetLengthCode (fh c) > ThresholdV1 \<Longrightarrow>
     readControl ec c = (Some (Status CloseProtocolError), c)"
  by (auto simp: readControl_def Let_def)

lemma readControl_unknown:
  assumes "unknown_opcode (GetOpcode (fh c))" "GetFIN (fh c)" "GetLengthCode (fh c) \<le> ThresholdV1"
    and "unat (GetLengthCode (fh c)) \<le> length (body c)"
  shows "fst (readControl ec c) =
           Some (NewError CloseProtocolError (UnexpectedOpcode (GetOpcode (fh c))))"
  using assms
  by (auto simp: readControl_def Let_def ReadN_def unknown_opcode_def not_less
      split: prod.splits sum.splits)

lemma readFrame_control_rejected:
  assumes "br c = Frame h n bs # rest" "n \<le> ReadMaxPayloadSize (config c)"
    and "\<not> isDataFrame (GetOpcode h)"
    and "\<not> GetFIN h \<or> GetLengthCode h > ThresholdV1"
  shows "fst (readFrame ec c) = Inl (Status CloseProtocolError)"
proof -
  let ?c1 = "c\<lparr>br := rest, body := bs, fh := h\<rparr>"
  have "readControl ec ?c1 = (Some (Status CloseProtocolError), ?c1)"
    using assms(4) by (intro readControl_fragmented_or_long) simp
  with assms show ?thesis
    by (auto simp: readFrame_def Parse_def Let_def checkMask_def)
qed

lemma readFrame_unknown:
  assumes "br c = Frame h n bs # rest" "n \<le> ReadMaxPayloadSize (config c)"
    and "unknown_opcode (GetOpcode h)" and "unat (GetLengthCode h) \<le> length bs"
  shows "\<exists>e. fst (readFrame ec c) = Inl e \<and> closeCode e = Some CloseProtocolError"
proof -
  let ?c1 = "c\<lparr>br := rest, body := bs, fh := h\<rparr>"
  have nd: "\<not> isDataFrame (GetOpcode h)"
    using assms(3) by (auto simp: unknown_opcode_def isDataFrame_def)
  show ?thesis
  proof (cases "\<not> GetFIN h \<or> GetLengthCode h > ThresholdV1")
    case True
    from readFrame_control_rejected [OF assms(1,2) nd True] show ?thesis by simp
  next
    case False
    then have "fst (readControl ec ?c1) =
           Some (NewError CloseProtocolError (UnexpectedOpcode (GetOpcode (fh ?c1))))"
      using assms(3,4) by (intro readControl_unknown) (auto simp: not_less)
    with assms(1,2) nd show ?thesis
      by (cases "readControl ec ?c1")
         (auto simp: readFrame_def Parse_def Let_def checkMask_def)
  qed
qed

lemma emitMessage_cases:
  "emitMessage utf8 c msg =
     (if CheckUtf8Enabled (config c) \<and> Opcode msg = OpcodeText \<and> \<not> utf8 (Data msg)
      then (Some (NewError CloseUnsupportedData ErrTextEncoding), c)
      else if ParallelEnabled (config c) then (None, c\<lparr>readQueue := readQueue c @ [msg]\<rparr>)
      else (None, c\<lparr>events := events c @ [OnMessage msg]\<rparr>))"
  by (simp add: emitMessage_def CheckEncoding_def readQueue_Go_def dispatch_def)

lemma length_payload [simp]: "length (payload f) = length (snd f)"
  by (simp add: payload_def)

lemma passes_arrived [simp]: "passes (arrived c h rest) h' = passes c h'"
  by (simp add: passes_def arrived_def)

lemma passes_cf [simp]: "passes (c\<lparr>continuationFrame := x\<rparr>) h' = passes c h'"
  by (simp add: passes_def)

lemma readFrame_data:
  assumes "br c = on_wire f # rest"
    and "int (length (snd f)) \<le> ReadMaxPayloadSize (config c)"
    and "passes c (fst f)" and "isDataFrame (GetOpcode (fst f))"
  shows "readFrame ec c =
    (let h = fst f; c1 = arrived c h rest; p = payload f; cf = continuationFrame c in
     if GetOpcode h \<noteq> OpcodeContinuation \<and> initialized cf then (Inl (Status CloseProtocolError), c1)
     else if GetFIN h \<and> GetOpcode h \<noteq> OpcodeContinuation
       then (Inr (Some \<lparr>Opcode = GetOpcode h, Data = p\<rparr>), c1)
     else if GetOpcode h \<noteq> OpcodeContinuation
       then (Inr None, c1\<lparr>continuationFrame := \<lparr>initialized = True, opcode = GetOpcode h, buffer = p\<rparr>\<rparr>)
     else if \<not> initialized cf then (Inl (Status CloseProtocolError), c1)
     else if int (length (buffer cf @ p)) > ReadMaxPayloadSize (config c)
       then (Inl (Status CloseMessageTooLarge), c1\<lparr>continuationFrame := cf\<lparr>buffer := buffer cf @ p\<rparr>\<rparr>)
     else if \<not> GetFIN h then (Inr None, c1\<lparr>continuationFrame := cf\<lparr>buffer := buffer cf @ p\<rparr>\<rparr>)
     else (Inr (Some \<lparr>Opcode = opcode cf, Data = buffer cf @ p\<rparr>),
           c1\<lparr>continuationFrame := \<lparr>initialized = False, opcode = 0, buffer = []\<rparr>\<rparr>))"
  using assms
  by (simp add: readFrame_def Parse_def Let_def ReadN_def arrived_def payload_def reset_def on_wire_def checkMask_def)
     (auto simp: passes_def)

lemma continuation_run:
  assumes "initialized (continuationFrame c)"
    and "br c = map on_wire mids @ on_wire fl # rest"
    and "\<forall>f \<in> set mids. passes c (fst f) \<and> GetOpcode (fst f) = OpcodeContinuation \<and> \<not> GetFIN (fst f)"
    and "passes c (fst fl)" "GetOpcode (fst fl) = OpcodeContinuation" "GetFIN (fst fl)"
    and "int (length (buffer (continuationFrame c) @ concat (map payload (mids @ [fl]))))
           \<le> ReadMaxPayloadSize (config c)"
  shows "ReadMessage ec c =
    (Inr \<lparr>Opcode = opcode (continuationFrame c),
          Data = buffer (continuationFrame c) @ concat (map payload (mids @ [fl]))\<rparr>,
     (arrived c (fst fl) rest)\<lparr>continuationFrame := \<lparr>initialized = False, opcode = 0, buffer = []\<rparr>\<rparr>)"
  using assms
proof (induction mids arbitrary: c)
  case Nil
  then have "readFrame ec c =
      (Inr (Some \<lparr>Opcode = opcode (continuationFrame c),
                  Data = buffer (continuationFrame c) @ payload fl\<rparr>),
       (arrived c (fst fl) rest)\<lparr>continuationFrame := \<lparr>initialized = False, opcode = 0, buffer = []\<rparr>\<rparr>)"
    by (subst readFrame_data [where f = fl and rest = rest]) (auto simp: isDataFrame_def Let_def)
  then show ?case
    by (subst ReadMessage.simps) simp
next
  case (Cons m mids)
  let ?c1 = "(arrived c (fst m) (map on_wire mids @ on_wire fl # rest))
               \<lparr>continuationFrame := (continuationFrame c)\<lparr>buffer := buffer (continuationFrame c) @ payload m\<rparr>\<rparr>"
  from Cons.prems have step: "readFrame ec c = (Inr None, ?c1)"
    by (subst readFrame_data [where f = m and rest = "map on_wire mids @ on_wire fl # rest"])
       (auto simp: isDataFrame_def Let_def)
  have "ReadMessage ec ?c1 =
    (Inr \<lparr>Opcode = opcode (continuationFrame ?c1),
          Data = buffer (continuationFrame ?c1) @ concat (map payload (mids @ [fl]))\<rparr>,
     (arrived ?c1 (fst fl) rest)\<lparr>continuationFrame := \<lparr>initialized = False, opcode = 0, buffer = []\<rparr>\<rparr>)"
    using Cons.prems by (intro Cons.IH) (auto simp: arrived_def passes_def)
  then show ?case
    by (subst ReadMessage.simps) (simp add: step arrived_def)
qed


text \<open>Facts about the sample frames and connections.\<close>

lemma MaskXOR_twice [simp]: "MaskXOR (MaskXOR p k) k = p"
  by (rule nth_equalityI) (simp_all add: MaskXOR_def nth_enumerate_eq xor.assoc)

lemma payload_client_frame [simp]: "payload (client_frame fin op p) = p"
  by (simp add: payload_def client_frame_def)

lemma fst_client_frame [simp]:
  "GetFIN (fst (client_frame fin op p)) = fin"
  "GetOpcode (fst (client_frame fin op p)) = op"
  "passes (fresh_server ws) (fst (client_frame fin op p))"
  "length (snd (client_frame fin op p)) = length p"
  by (simp_all add: client_frame_def passes_def fresh_server_def)

lemma fresh_server_simps [simp]:
  "br (fresh_server ws) = ws"
  "continuationFrame (fresh_server ws) = new_continuationFrame"
  "ReadMaxPayloadSize (config (fresh_server ws)) = 1024"
  "isServer (fresh_server ws)"
  by (simp_all add: fresh_server_def sample_config_def)

lemmas reader_defs =
  readFrame_def readControl_def Parse_def ReadN_def checkMask_def isDataFrame_def Let_def
  reset_def on_wire_def client_frame_def fresh_server_def sample_config_def
  new_continuationFrame_def new_frameHeader_def no_close_error_def

lemma sample_single:
  "ReadMessage no_close_error (fresh_server [on_wire (client_frame True OpcodeText [104, 105])])
     = (Inr \<lparr>Opcode = OpcodeText, Data = [104, 105]\<rparr>,
        arrived (fresh_server []) (fst (client_frame True OpcodeText [104, 105])) [])"
  by (subst ReadMessage.simps) (simp add: reader_defs arrived_def)

lemma sample_open:
  "readFrame no_close_error
     (fresh_server (on_wire (client_frame False OpcodeText [104]) # ws))
   = (Inr None,
      (arrived (fresh_server ws) (fst (client_frame False OpcodeText [104])) ws)
        \<lparr>continuationFrame := \<lparr>initialized = True, opcode = OpcodeText, buffer = [104]\<rparr>\<rparr>)"
  by (simp add: reader_defs arrived_def)

lemma sample_close:
  "readFrame no_close_error
     ((fresh_server (on_wire (client_frame True OpcodeContinuation [105]) # ws))
        \<lparr>continuationFrame := \<lparr>initialized = True, opcode = OpcodeText, buffer = [104]\<rparr>\<rparr>)
   = (Inr (Some \<lparr>Opcode = OpcodeText, Data = [104, 105]\<rparr>),
      (arrived (fresh_server ws) (fst (client_frame True OpcodeContinuation [105])) ws)
        \<lparr>continuationFrame := \<lparr>initialized = False, opcode = 0, buffer = []\<rparr>\<rparr>)"
  by (simp add: reader_defs arrived_def)

lemma sample_violation:
  "readFrame no_close_error
     ((fresh_server (on_wire (client_frame True OpcodeText [105]) # ws))
        \<lparr>continuationFrame := \<lparr>initialized = True, opcode = OpcodeText, buffer = [104]\<rparr>\<rparr>)
   = (Inl (Status CloseProtocolError),
      (arrived (fresh_server ws) (fst (client_frame True OpcodeText [105])) ws)
        \<lparr>continuationFrame := \<lparr>initialized = True, opcode = OpcodeText, buffer = [104]\<rparr>\<rparr>)"
  by (simp add: reader_defs arrived_def)

lemma sample_append:
  "readFrame no_close_error
     ((fresh_server (on_wire (client_frame False OpcodeContinuation [105]) # ws))
        \<lparr>continuationFrame := \<lparr>initialized = True, opcode = OpcodeText, buffer = [104]\<rparr>\<rparr>)
   = (Inr None,
      (arrived (fresh_server ws) (fst (client_frame False OpcodeContinuation [105])) ws)
        \<lparr>continuationFrame := \<lparr>initialized = True, opcode = OpcodeText, buffer = [104, 105]\<rparr>\<rparr>)"
  by (simp add: reader_defs arrived_def)

subsection \<open>The claims\<close>

text \<open>C1. Fragment reassembly. Let a connection have no continuation open and let its
  stream start with the complete frames \<open>f0\<close>, \<open>mids\<close>, \<open>fl\<close>: a Text or Binary
  frame with FIN=0, any number of Continuation frames with FIN=0, and a Continuation frame
  with FIN=1, each with a header that passes the reserved-bit and mask checks, and with a
  total payload of at most \<^verbatim>\<open>ReadMaxPayloadSize\<close> bytes. Then calling \<^verbatim>\<open>readFrame\<close> repeatedly,
  as \<^verbatim>\<open>ReadMessage\<close> does, returns no message before the last frame and returns there one
  message, with the opcode of the first frame and the payloads of all the frames in order;
  the frames are off the stream and the continuation is closed. Second, a complete data
  frame that passes the header checks and whose opcode, FIN bit and continuation state are
  none of the three sanctioned combinations is rejected with \<^verbatim>\<open>CloseProtocolError\<close>.\<close>

theorem fragments_reassemble:
  "(\<not> initialized (continuationFrame c)
      \<and> br c = map on_wire (f0 # mids @ [fl]) @ rest
      \<and> (\<forall>f \<in> set (f0 # mids @ [fl]). passes c (fst f))
      \<and> (GetOpcode (fst f0) = OpcodeText \<or> GetOpcode (fst f0) = OpcodeBinary) \<and> \<not> GetFIN (fst f0)
      \<and> (\<forall>f \<in> set mids. GetOpcode (fst f) = OpcodeContinuation \<and> \<not> GetFIN (fst f))
      \<and> GetOpcode (fst fl) = OpcodeContinuation \<and> GetFIN (fst fl)
      \<and> int (length (concat (map payload (f0 # mids @ [fl])))) \<le> ReadMaxPayloadSize (config c)
    \<longrightarrow> ReadMessage ec c =
          (Inr \<lparr>Opcode = GetOpcode (fst f0), Data = concat (map payload (f0 # mids @ [fl]))\<rparr>,
           (arrived c (fst fl) rest)
             \<lparr>continuationFrame := \<lparr>initialized = False, opcode = 0, buffer = []\<rparr>\<rparr>))
   \<and> (br c = on_wire f # rest
      \<and> passes c (fst f)
      \<and> int (length (snd f)) \<le> ReadMaxPayloadSize (config c)
      \<and> isDataFrame (GetOpcode (fst f))
      \<and> \<not> sanctioned (GetOpcode (fst f)) (GetFIN (fst f)) (initialized (continuationFrame c))
    \<longrightarrow> readFrame ec c = (Inl (Status CloseProtocolError), arrived c (fst f) rest))"
proof (intro conjI impI)
  assume a: "\<not> initialized (continuationFrame c)
      \<and> br c = map on_wire (f0 # mids @ [fl]) @ rest
      \<and> (\<forall>f \<in> set (f0 # mids @ [fl]). passes c (fst f))
      \<and> (GetOpcode (fst f0) = OpcodeText \<or> GetOpcode (fst f0) = OpcodeBinary) \<and> \<not> GetFIN (fst f0)
      \<and> (\<forall>f \<in> set mids. GetOpcode (fst f) = OpcodeContinuation \<and> \<not> GetFIN (fst f))
      \<and> GetOpcode (fst fl) = OpcodeContinuation \<and> GetFIN (fst fl)
      \<and> int (length (concat (map payload (f0 # mids @ [fl])))) \<le> ReadMaxPayloadSize (config c)"
  let ?c1 = "(arrived c (fst f0) (map on_wire mids @ on_wire fl # rest))
               \<lparr>continuationFrame := \<lparr>initialized = True, opcode = GetOpcode (fst f0), buffer = payload f0\<rparr>\<rparr>"
  from a have step: "readFrame ec c = (Inr None, ?c1)"
    by (subst readFrame_data [where f = f0 and rest = "map on_wire mids @ on_wire fl # rest"])
       (auto simp: isDataFrame_def Let_def)
  have "ReadMessage ec ?c1 =
    (Inr \<lparr>Opcode = opcode (continuationFrame ?c1),
          Data = buffer (continuationFrame ?c1) @ concat (map payload (mids @ [fl]))\<rparr>,
     (arrived ?c1 (fst fl) rest)\<lparr>continuationFrame := \<lparr>initialized = False, opcode = 0, buffer = []\<rparr>\<rparr>)"
    using a by (intro continuation_run) (auto simp: arrived_def passes_def)
  then show "ReadMessage ec c =
          (Inr \<lparr>Opcode = GetOpcode (fst f0), Data = concat (map payload (f0 # mids @ [fl]))\<rparr>,
           (arrived c (fst fl) rest)
             \<lparr>continuationFrame := \<lparr>initialized = False, opcode = 0, buffer = []\<rparr>\<rparr>)"
    by (subst ReadMessage.simps) (simp add: step arrived_def)
next
  assume "br c = on_wire f # rest
      \<and> passes c (fst f)
      \<and> int (length (snd f)) \<le> ReadMaxPayloadSize (config c)
      \<and> isDataFrame (GetOpcode (fst f))
      \<and> \<not> sanctioned (GetOpcode (fst f)) (GetFIN (fst f)) (initialized (continuationFrame c))"
  then show "readFrame ec c = (Inl (Status CloseProtocolError), arrived c (fst f) rest)"
    by (subst readFrame_data [where f = f and rest = rest])
       (auto simp: isDataFrame_def sanctioned_def Let_def)
qed

theorem fragments_reassemble_witness:
  "fst (ReadMessage no_close_error
         (fresh_server (map on_wire
            [client_frame False OpcodeBinary [1, 2, 3, 4],
             client_frame False OpcodeContinuation [5],
             client_frame True OpcodeContinuation [6, 7]])))
     = Inr \<lparr>Opcode = OpcodeBinary, Data = [1, 2, 3, 4, 5, 6, 7]\<rparr>
   \<and> fst (readFrame no_close_error
            (fresh_server [on_wire (client_frame True OpcodeContinuation [1])]))
     = Inl (Status CloseProtocolError)"
  using fragments_reassemble
    [where c = "fresh_server (map on_wire
            [client_frame False OpcodeBinary [1, 2, 3, 4],
             client_frame False OpcodeContinuation [5],
             client_frame True OpcodeContinuation [6, 7]])"
       and ?f0.0 = "client_frame False OpcodeBinary [1, 2, 3, 4]"
       and mids = "[client_frame False OpcodeContinuation [5]]"
       and fl = "client_frame True OpcodeContinuation [6, 7]"
       and rest = "[]" and ec = no_close_error]
   fragments_reassemble
    [where c = "fresh_server [on_wire (client_frame True OpcodeContinuation [1])]"
       and f = "client_frame True OpcodeContinuation [1]" and rest = "[]"
       and ec = no_close_error]
  by (simp add: new_continuationFrame_def isDataFrame_def sanctioned_def)

text \<open>C2. Bounds on delivered messages. On a connection whose open continuation, if any,
  records Text or Binary (every connection is so from its creation on), a message that
  \<^verbatim>\<open>ReadMessage\<close> returns has at most \<^verbatim>\<open>ReadMaxPayloadSize\<close> bytes and the opcode Text or
  Binary, never Continuation. A frame whose declared content length exceeds
  \<^verbatim>\<open>ReadMaxPayloadSize\<close> makes \<^verbatim>\<open>readFrame\<close> fail with \<^verbatim>\<open>CloseMessageTooLarge\<close>, and so does
  a continuation frame with which the reassembled total exceeds \<^verbatim>\<open>ReadMaxPayloadSize\<close>,
  at whichever frame of the message that happens. The code of that error is 1009.\<close>

theorem message_bounds:
  "(recorded_ok c \<and> ReadMessage ec c = (Inr m, c')
      \<longrightarrow> int (length (Data m)) \<le> ReadMaxPayloadSize (config c)
          \<and> (Opcode m = OpcodeText \<or> Opcode m = OpcodeBinary)
          \<and> Opcode m \<noteq> OpcodeContinuation)
   \<and> (br c = Frame h n bs # rest \<and> ReadMaxPayloadSize (config c) < n
      \<longrightarrow> readFrame ec c =
            (Inl (Status CloseMessageTooLarge), c\<lparr>br := rest, body := bs, fh := h\<rparr>))
   \<and> (br c = on_wire f # rest \<and> passes c (fst f)
      \<and> int (length (snd f)) \<le> ReadMaxPayloadSize (config c)
      \<and> GetOpcode (fst f) = OpcodeContinuation \<and> initialized (continuationFrame c)
      \<and> ReadMaxPayloadSize (config c)
           < int (length (buffer (continuationFrame c)) + length (payload f))
      \<longrightarrow> readFrame ec c =
            (Inl (Status CloseMessageTooLarge),
             (arrived c (fst f) rest)
               \<lparr>continuationFrame :=
                  (continuationFrame c)\<lparr>buffer := buffer (continuationFrame c) @ payload f\<rparr>\<rparr>))
   \<and> Uint16 CloseMessageTooLarge = 1009"
proof (intro conjI impI)
  assume a: "recorded_ok c \<and> ReadMessage ec c = (Inr m, c')"
  from ReadMessage_bounds [of c ec m c'] a
  show "int (length (Data m)) \<le> ReadMaxPayloadSize (config c)"
    and "Opcode m = OpcodeText \<or> Opcode m = OpcodeBinary"
    and "Opcode m \<noteq> OpcodeContinuation"
    by auto
next
  assume "br c = Frame h n bs # rest \<and> ReadMaxPayloadSize (config c) < n"
  then show "readFrame ec c =
            (Inl (Status CloseMessageTooLarge), c\<lparr>br := rest, body := bs, fh := h\<rparr>)"
    by (simp add: readFrame_too_large)
next
  assume "br c = on_wire f # rest \<and> passes c (fst f)
      \<and> int (length (snd f)) \<le> ReadMaxPayloadSize (config c)
      \<and> GetOpcode (fst f) = OpcodeContinuation \<and> initialized (continuationFrame c)
      \<and> ReadMaxPayloadSize (config c)
           < int (length (buffer (continuationFrame c)) + length (payload f))"
  then show "readFrame ec c =
            (Inl (Status CloseMessageTooLarge),
             (arrived c (fst f) rest)
               \<lparr>continuationFrame :=
                  (continuationFrame c)\<lparr>buffer := buffer (continuationFrame c) @ payload f\<rparr>\<rparr>)"
    by (subst readFrame_data [where f = f and rest = rest])
       (auto simp: isDataFrame_def Let_def)
next
  show "Uint16 CloseMessageTooLarge = 1009" by simp
qed

theorem message_bounds_witness:
  "ReadMessage no_close_error (fresh_server [on_wire (client_frame True OpcodeText [104, 105])])
     = (Inr \<lparr>Opcode = OpcodeText, Data = [104, 105]\<rparr>,
        arrived (fresh_server []) (fst (client_frame True OpcodeText [104, 105])) [])
   \<and> int (length [104, 105 :: byte]) \<le> ReadMaxPayloadSize (config (fresh_server []))
   \<and> fst (readFrame no_close_error
            (fresh_server [Frame (fst (client_frame True OpcodeText [])) 2048 []]))
       = Inl (Status CloseMessageTooLarge)
   \<and> fst (readFrame no_close_error
            ((fresh_server [on_wire (client_frame True OpcodeContinuation [7])])
               \<lparr>continuationFrame :=
                  \<lparr>initialized = True, opcode = OpcodeBinary, buffer = replicate 1024 0\<rparr>\<rparr>))
       = Inl (Status CloseMessageTooLarge)"
  using message_bounds
    [where c = "fresh_server [on_wire (client_frame True OpcodeText [104, 105])]"
       and ec = no_close_error
       and m = "\<lparr>Opcode = OpcodeText, Data = [104, 105]\<rparr>"
       and c' = "arrived (fresh_server []) (fst (client_frame True OpcodeText [104, 105])) []"]
   message_bounds
    [where c = "fresh_server [Frame (fst (client_frame True OpcodeText [])) 2048 []]"
       and ec = no_close_error and h = "fst (client_frame True OpcodeText [])"
       and n = 2048 and bs = "[]" and rest = "[]"]
   message_bounds
    [where c = "(fresh_server [on_wire (client_frame True OpcodeContinuation [7])])
               \<lparr>continuationFrame :=
                  \<lparr>initialized = True, opcode = OpcodeBinary, buffer = replicate 1024 0\<rparr>\<rparr>"
       and ec = no_close_error and f = "client_frame True OpcodeContinuation [7]"
       and rest = "[]"]
   sample_single
  by (simp add: recorded_ok_def new_continuationFrame_def)

text \<open>C3, as the code has it. (i) On a connection created with no continuation open,
  after any number of calls of \<^verbatim>\<open>readFrame\<close>, whatever they returned, \<open>initialized\<close>
  implies that the recorded opcode is Text or Binary. (ii) A call turns \<open>initialized\<close> on
  only for a Text or Binary frame with FIN=0, whose opcode it records, and returns no
  message then. (iii) While \<open>initialized\<close> stays on, the recorded opcode stays and no
  message is delivered: the message is not finished. (iv) When a call delivers a message
  on a Continuation frame, that frame has FIN=1 and the state is reset. (v) An error
  returned by \<^verbatim>\<open>readFrame\<close> does not reset the state: \<open>initialized\<close> keeps the value it
  had before the call.\<close>

theorem continuation_state:
  "(\<not> initialized (continuationFrame c) \<longrightarrow> recorded_ok (calls ec n c))
   \<and> (readFrame ec c = (r, c') \<and> \<not> initialized (continuationFrame c)
        \<and> initialized (continuationFrame c')
      \<longrightarrow> (GetOpcode (fh c') = OpcodeText \<or> GetOpcode (fh c') = OpcodeBinary)
          \<and> \<not> GetFIN (fh c') \<and> opcode (continuationFrame c') = GetOpcode (fh c')
          \<and> r = Inr None)
   \<and> (readFrame ec c = (r, c') \<and> initialized (continuationFrame c)
        \<and> initialized (continuationFrame c')
      \<longrightarrow> opcode (continuationFrame c') = opcode (continuationFrame c)
          \<and> (\<forall>m. r \<noteq> Inr (Some m)))
   \<and> (readFrame ec c = (Inr (Some m), c') \<and> GetOpcode (fh c') = OpcodeContinuation
      \<longrightarrow> GetFIN (fh c') \<and> \<not> initialized (continuationFrame c'))
   \<and> (readFrame ec c = (Inl e, c')
      \<longrightarrow> initialized (continuationFrame c') = initialized (continuationFrame c))"
proof (intro conjI impI)
  assume "\<not> initialized (continuationFrame c)"
  then show "recorded_ok (calls ec n c)"
    by (intro calls_recorded_ok) (simp add: recorded_ok_def)
next
  assume a: "readFrame ec c = (r, c') \<and> \<not> initialized (continuationFrame c)
        \<and> initialized (continuationFrame c')"
  then have R: "readFrame ec c = (r, c')" by simp
  from readFrame_effect [OF R] a
  show "GetOpcode (fh c') = OpcodeText \<or> GetOpcode (fh c') = OpcodeBinary"
    and "\<not> GetFIN (fh c')"
    and "opcode (continuationFrame c') = GetOpcode (fh c')"
    and "r = Inr None"
    by (cases r; auto simp: Let_def split: option.splits)+
next
  assume a: "readFrame ec c = (r, c') \<and> initialized (continuationFrame c)
        \<and> initialized (continuationFrame c')"
  then have R: "readFrame ec c = (r, c')" by simp
  from readFrame_effect [OF R] a
  show "opcode (continuationFrame c') = opcode (continuationFrame c)"
    and "\<forall>m. r \<noteq> Inr (Some m)"
    by (cases r; auto simp: Let_def split: option.splits)+
next
  assume a: "readFrame ec c = (Inr (Some m), c') \<and> GetOpcode (fh c') = OpcodeContinuation"
  then have R: "readFrame ec c = (Inr (Some m), c')" by simp
  from readFrame_effect [OF R] a
  show "GetFIN (fh c')" and "\<not> initialized (continuationFrame c')"
    by (auto simp: Let_def)
next
  assume R: "readFrame ec c = (Inl e, c')"
  from readFrame_effect [OF R]
  show "initialized (continuationFrame c') = initialized (continuationFrame c)"
    by (auto simp: Let_def)
qed

theorem continuation_state_witness:
  "recorded_ok (calls no_close_error (Suc (Suc 0))
      (fresh_server [on_wire (client_frame False OpcodeText [104]),
                     on_wire (client_frame True OpcodeText [105])]))
   \<and> GetOpcode (fh (snd (readFrame no_close_error
         (fresh_server [on_wire (client_frame False OpcodeText [104])])))) = OpcodeText
   \<and> opcode (continuationFrame (snd (readFrame no_close_error
         (text_open [on_wire (client_frame False OpcodeContinuation [105])])))) = OpcodeText
   \<and> \<not> initialized (continuationFrame (snd (readFrame no_close_error
         (text_open [on_wire (client_frame True OpcodeContinuation [105])]))))
   \<and> initialized (continuationFrame (snd (readFrame no_close_error
         (text_open [on_wire (client_frame True OpcodeText [105])]))))"
proof -
  let ?ec = no_close_error
  let ?A = "on_wire (client_frame False OpcodeText [104])"
  let ?B = "on_wire (client_frame True OpcodeText [105])"
  let ?C = "on_wire (client_frame False OpcodeContinuation [105])"
  let ?D = "on_wire (client_frame True OpcodeContinuation [105])"
  have 1: "recorded_ok (calls ?ec (Suc (Suc 0)) (fresh_server [?A, ?B]))"
    by (rule continuation_state
          [where c = "fresh_server [?A, ?B]" and ec = ?ec and n = "Suc (Suc 0)",
           THEN conjunct1, THEN mp])
       (simp add: new_continuationFrame_def)
  have "(GetOpcode (fh (snd (readFrame ?ec (fresh_server [?A])))) = OpcodeText
          \<or> GetOpcode (fh (snd (readFrame ?ec (fresh_server [?A])))) = OpcodeBinary)
        \<and> \<not> GetFIN (fh (snd (readFrame ?ec (fresh_server [?A]))))
        \<and> opcode (continuationFrame (snd (readFrame ?ec (fresh_server [?A]))))
            = GetOpcode (fh (snd (readFrame ?ec (fresh_server [?A]))))
        \<and> fst (readFrame ?ec (fresh_server [?A])) = Inr None"
    by (rule continuation_state
          [where c = "fresh_server [?A]" and ec = ?ec
             and r = "fst (readFrame ?ec (fresh_server [?A]))"
             and c' = "snd (readFrame ?ec (fresh_server [?A]))",
           THEN conjunct2, THEN conjunct1, THEN mp])
       (simp add: sample_open new_continuationFrame_def)
  then have 2: "GetOpcode (fh (snd (readFrame ?ec (fresh_server [?A])))) = OpcodeText"
    by (simp add: sample_open arrived_def)
  have "opcode (continuationFrame (snd (readFrame ?ec (text_open [?C]))))
          = opcode (continuationFrame (text_open [?C]))
        \<and> (\<forall>m. fst (readFrame ?ec (text_open [?C])) \<noteq> Inr (Some m))"
    by (rule continuation_state
          [where c = "text_open [?C]" and ec = ?ec
             and r = "fst (readFrame ?ec (text_open [?C]))"
             and c' = "snd (readFrame ?ec (text_open [?C]))",
           THEN conjunct2, THEN conjunct2, THEN conjunct1, THEN mp])
       (simp add: text_open_def sample_append)
  then have 3: "opcode (continuationFrame (snd (readFrame ?ec (text_open [?C])))) = OpcodeText"
    by (simp add: text_open_def)
  have "GetFIN (fh (snd (readFrame ?ec (text_open [?D]))))
        \<and> \<not> initialized (continuationFrame (snd (readFrame ?ec (text_open [?D]))))"
    by (rule continuation_state
          [where c = "text_open [?D]" and ec = ?ec
             and m = "\<lparr>Opcode = OpcodeText, Data = [104, 105]\<rparr>"
             and c' = "snd (readFrame ?ec (text_open [?D]))",
           THEN conjunct2, THEN conjunct2, THEN conjunct2, THEN conjunct1, THEN mp])
       (simp add: text_open_def sample_close arrived_def)
  then have 4: "\<not> initialized (continuationFrame (snd (readFrame ?ec (text_open [?D]))))"
    by simp
  have "initialized (continuationFrame (snd (readFrame ?ec (text_open [?B]))))
          = initialized (continuationFrame (text_open [?B]))"
    by (rule continuation_state
          [where c = "text_open [?B]" and ec = ?ec
             and e = "Status CloseProtocolError"
             and c' = "snd (readFrame ?ec (text_open [?B]))",
           THEN conjunct2, THEN conjunct2, THEN conjunct2, THEN conjunct2, THEN mp])
       (simp add: text_open_def sample_violation)
  then have 5: "initialized (continuationFrame (snd (readFrame ?ec (text_open [?B]))))"
    by (simp add: text_open_def)
  from 1 2 3 4 5 show ?thesis by blast
qed

text \<open>C3 as stated fails: the state is not reset upon a protocol error. A server reads a
  Text frame with FIN=0 and then a Text frame with FIN=1; the second call returns
  \<^verbatim>\<open>CloseProtocolError\<close> and leaves \<open>initialized\<close> on.\<close>

theorem reset_on_error_counterexample:
  "fst (readFrame no_close_error
         (calls no_close_error (Suc 0)
            (fresh_server [on_wire (client_frame False OpcodeText [104]),
                           on_wire (client_frame True OpcodeText [105])])))
     = Inl (Status CloseProtocolError)
   \<and> initialized (continuationFrame
         (calls no_close_error (Suc (Suc 0))
            (fresh_server [on_wire (client_frame False OpcodeText [104]),
                           on_wire (client_frame True OpcodeText [105])])))"
  by (simp add: reader_defs)

text \<open>C5. Control frames and unknown opcodes. \<^verbatim>\<open>readControl\<close> fails with
  \<^verbatim>\<open>CloseProtocolError\<close> when the FIN bit of the frame is 0 or its length code exceeds 125,
  and so does \<^verbatim>\<open>readFrame\<close> on a Ping, Pong or Close frame of that kind whose declared
  length is within \<^verbatim>\<open>ReadMaxPayloadSize\<close>. For an opcode outside
  {Continuation, Text, Binary, Close, Ping, Pong} on a frame that is whole (the stream holds
  the bytes of its length code), \<^verbatim>\<open>readControl\<close> returns the error
  \<^verbatim>\<open>NewError(CloseProtocolError, ...)\<close>, and \<^verbatim>\<open>readFrame\<close> on such a frame with a declared
  length within \<^verbatim>\<open>ReadMaxPayloadSize\<close> fails with an error whose close code is
  \<^verbatim>\<open>CloseProtocolError\<close>, 1002.\<close>

theorem control_frames:
  "(\<not> GetFIN (fh c) \<or> GetLengthCode (fh c) > 125
      \<longrightarrow> readControl ec c = (Some (Status CloseProtocolError), c))
   \<and> (br c = Frame h n bs # rest \<and> n \<le> ReadMaxPayloadSize (config c)
        \<and> GetOpcode h \<in> {OpcodePing, OpcodePong, OpcodeCloseConnection}
        \<and> (\<not> GetFIN h \<or> GetLengthCode h > 125)
      \<longrightarrow> fst (readFrame ec c) = Inl (Status CloseProtocolError))
   \<and> (unknown_opcode (GetOpcode (fh c)) \<and> GetFIN (fh c) \<and> GetLengthCode (fh c) \<le> 125
        \<and> unat (GetLengthCode (fh c)) \<le> length (body c)
      \<longrightarrow> fst (readControl ec c)
            = Some (NewError CloseProtocolError (UnexpectedOpcode (GetOpcode (fh c)))))
   \<and> (br c = Frame h n bs # rest \<and> n \<le> ReadMaxPayloadSize (config c)
        \<and> unknown_opcode (GetOpcode h) \<and> unat (GetLengthCode h) \<le> length bs
      \<longrightarrow> (\<exists>e. fst (readFrame ec c) = Inl e \<and> closeCode e = Some CloseProtocolError))
   \<and> Uint16 CloseProtocolError = 1002"
proof (intro conjI impI)
  assume "\<not> GetFIN (fh c) \<or> GetLengthCode (fh c) > 125"
  then show "readControl ec c = (Some (Status CloseProtocolError), c)"
    by (rule readControl_fragmented_or_long)
next
  assume a: "br c = Frame h n bs # rest \<and> n \<le> ReadMaxPayloadSize (config c)
        \<and> GetOpcode h \<in> {OpcodePing, OpcodePong, OpcodeCloseConnection}
        \<and> (\<not> GetFIN h \<or> GetLengthCode h > 125)"
  then have "\<not> isDataFrame (GetOpcode h)" by (auto simp: isDataFrame_def)
  with a show "fst (readFrame ec c) = Inl (Status CloseProtocolError)"
    by (intro readFrame_control_rejected [where h = h and n = n and bs = bs and rest = rest]) simp_all
next
  assume "unknown_opcode (GetOpcode (fh c)) \<and> GetFIN (fh c) \<and> GetLengthCode (fh c) \<le> 125
        \<and> unat (GetLengthCode (fh c)) \<le> length (body c)"
  then show "fst (readControl ec c)
            = Some (NewError CloseProtocolError (UnexpectedOpcode (GetOpcode (fh c))))"
    by (intro readControl_unknown) simp_all
next
  assume "br c = Frame h n bs # rest \<and> n \<le> ReadMaxPayloadSize (config c)
        \<and> unknown_opcode (GetOpcode h) \<and> unat (GetLengthCode h) \<le> length bs"
  then show "\<exists>e. fst (readFrame ec c) = Inl e \<and> closeCode e = Some CloseProtocolError"
    by (intro readFrame_unknown [where h = h and n = n and bs = bs and rest = rest]) simp_all
next
  show "Uint16 CloseProtocolError = 1002" by simp
qed

theorem control_frames_witness:
  "readControl no_close_error ((fresh_server [])\<lparr>fh := fst (client_frame False OpcodePing [])\<rparr>)
     = (Some (Status CloseProtocolError),
        (fresh_server [])\<lparr>fh := fst (client_frame False OpcodePing [])\<rparr>)
   \<and> fst (readFrame no_close_error
            (fresh_server [Frame ((fst (client_frame True OpcodePong []))\<lparr>GetLengthCode := 126\<rparr>)
                             200 (replicate 200 0)]))
       = Inl (Status CloseProtocolError)
   \<and> fst (readControl no_close_error
            ((fresh_server [])\<lparr>fh := fst (client_frame True 3 [1]), body := [54]\<rparr>))
       = Some (NewError CloseProtocolError (UnexpectedOpcode 3))
   \<and> (\<exists>e. fst (readFrame no_close_error (fresh_server [on_wire (client_frame True 11 [1])]))
             = Inl e \<and> closeCode e = Some CloseProtocolError)"
proof -
  let ?ec = no_close_error
  let ?c1 = "(fresh_server [])\<lparr>fh := fst (client_frame False OpcodePing [])\<rparr>"
  let ?h2 = "(fst (client_frame True OpcodePong []))\<lparr>GetLengthCode := 126\<rparr>"
  let ?c3 = "(fresh_server [])\<lparr>fh := fst (client_frame True 3 [1]), body := [54]\<rparr>"
  have 1: "readControl ?ec ?c1 = (Some (Status CloseProtocolError), ?c1)"
    by (rule control_frames [where c = ?c1 and ec = ?ec, THEN conjunct1, THEN mp])
       (simp add: client_frame_def)
  have 2: "fst (readFrame ?ec (fresh_server [Frame ?h2 200 (replicate 200 0)]))
             = Inl (Status CloseProtocolError)"
    by (rule control_frames
          [where c = "fresh_server [Frame ?h2 200 (replicate 200 0)]" and ec = ?ec
             and h = ?h2 and n = 200 and bs = "replicate 200 0" and rest = "[]",
           THEN conjunct2, THEN conjunct1, THEN mp])
       (simp add: client_frame_def)
  have "fst (readControl ?ec ?c3)
          = Some (NewError CloseProtocolError (UnexpectedOpcode (GetOpcode (fh ?c3))))"
    by (rule control_frames
          [where c = ?c3 and ec = ?ec, THEN conjunct2, THEN conjunct2, THEN conjunct1, THEN mp])
       (simp add: client_frame_def unknown_opcode_def)
  then have 3: "fst (readControl ?ec ?c3) = Some (NewError CloseProtocolError (UnexpectedOpcode 3))"
    by (simp add: client_frame_def)
  have 4: "\<exists>e. fst (readFrame ?ec (fresh_server [on_wire (client_frame True 11 [1])])) = Inl e
              \<and> closeCode e = Some CloseProtocolError"
    by (rule control_frames
          [where c = "fresh_server [on_wire (client_frame True 11 [1])]" and ec = ?ec
             and h = "fst (client_frame True 11 [1])" and n = 1
             and bs = "snd (client_frame True 11 [1])" and rest = "[]",
           THEN conjunct2, THEN conjunct2, THEN conjunct2, THEN conjunct1, THEN mp])
       (simp add: client_frame_def unknown_opcode_def on_wire_def)
  from 1 2 3 4 show ?thesis by blast
qed

text \<open>C6. On every connection and for every MASK bit, \<^verbatim>\<open>checkMask\<close> returns
  \<^verbatim>\<open>CloseProtocolError\<close> exactly when the bit is inconsistent with the role: a server
  connection rejects an unmasked frame, a client connection rejects a masked one, and in
  the two other cases the check returns no error. \<^verbatim>\<open>readFrame\<close> returns that error for a
  frame that has come through its checks of the declared length and of the reserved bits.\<close>

theorem checkMask_role:
  "(checkMask c enabled = Some (Status CloseProtocolError)) = (isServer c \<noteq> enabled)
   \<and> (checkMask c enabled = None) = (isServer c = enabled)
   \<and> checkMask (c\<lparr>isServer := True\<rparr>) False = Some (Status CloseProtocolError)
   \<and> checkMask (c\<lparr>isServer := False\<rparr>) True = Some (Status CloseProtocolError)
   \<and> checkMask (c\<lparr>isServer := True\<rparr>) True = None
   \<and> checkMask (c\<lparr>isServer := False\<rparr>) False = None
   \<and> (br c = Frame h n bs # rest \<and> n \<le> ReadMaxPayloadSize (config c)
        \<and> \<not> GetRSV1 h \<and> \<not> GetRSV2 h \<and> \<not> GetRSV3 h \<and> GetMask h \<noteq> isServer c
      \<longrightarrow> readFrame ec c =
            (Inl (Status CloseProtocolError), c\<lparr>br := rest, body := bs, fh := h\<rparr>))"
  by (auto simp: checkMask_def readFrame_mask)

theorem checkMask_role_witness:
  "checkMask (fresh_server []) False = Some (Status CloseProtocolError)
   \<and> checkMask (fresh_server []) True = None
   \<and> checkMask ((fresh_server [])\<lparr>isServer := False\<rparr>) True = Some (Status CloseProtocolError)
   \<and> fst (readFrame no_close_error
            (fresh_server [Frame ((fst (client_frame True OpcodeText []))\<lparr>GetMask := False\<rparr>) 0 []]))
       = Inl (Status CloseProtocolError)"
proof -
  let ?h = "(fst (client_frame True OpcodeText []))\<lparr>GetMask := False\<rparr>"
  let ?c = "fresh_server [Frame ?h 0 []]"
  note T = checkMask_role [where c = ?c and ec = no_close_error and h = ?h and n = 0
      and bs = "[]" and rest = "[]"]
  have "readFrame no_close_error ?c
          = (Inl (Status CloseProtocolError), ?c\<lparr>br := [], body := [], fh := ?h\<rparr>)"
    by (rule T [THEN conjunct2, THEN conjunct2, THEN conjunct2, THEN conjunct2,
                THEN conjunct2, THEN conjunct2, THEN mp])
       (simp add: client_frame_def)
  then have 1: "fst (readFrame no_close_error ?c) = Inl (Status CloseProtocolError)"
    by simp
  have 2: "checkMask (fresh_server []) False = Some (Status CloseProtocolError)"
    using checkMask_role [where c = "fresh_server []" and enabled = False, THEN conjunct1]
    by simp
  have 3: "checkMask (fresh_server []) True = None"
    using checkMask_role [where c = "fresh_server []" and enabled = True,
        THEN conjunct2, THEN conjunct1]
    by simp
  have 4: "checkMask ((fresh_server [])\<lparr>isServer := False\<rparr>) True = Some (Status CloseProtocolError)"
    by (rule checkMask_role [THEN conjunct2, THEN conjunct2, THEN conjunct2, THEN conjunct1])
  from 1 2 3 4 show ?thesis by blast
qed

text \<open>C7. \<^verbatim>\<open>emitMessage\<close> fails with \<^verbatim>\<open>NewError(CloseUnsupportedData, ErrTextEncoding)\<close>,
  close code 1007, exactly when \<^verbatim>\<open>CheckUtf8Enabled\<close> is set, the message has opcode Text and
  the validation of its payload fails; nothing is dispatched then, so the validation comes
  before the dispatch. A Text message that validates is dispatched (to \<^verbatim>\<open>OnMessage\<close>, or
  to the parallel queue when that is enabled), and a message with another opcode, or any
  message when \<^verbatim>\<open>CheckUtf8Enabled\<close> is off, is dispatched whatever the validation would say.\<close>

theorem text_encoding_check:
  "(fst (emitMessage utf8 c msg) = Some (NewError CloseUnsupportedData ErrTextEncoding))
      = (CheckUtf8Enabled (config c) \<and> Opcode msg = OpcodeText \<and> \<not> utf8 (Data msg))
   \<and> (CheckUtf8Enabled (config c) \<and> Opcode msg = OpcodeText \<and> \<not> utf8 (Data msg)
      \<longrightarrow> emitMessage utf8 c msg = (Some (NewError CloseUnsupportedData ErrTextEncoding), c))
   \<and> (CheckUtf8Enabled (config c) \<and> Opcode msg = OpcodeText \<and> utf8 (Data msg)
      \<longrightarrow> emitMessage utf8 c msg
            = (if ParallelEnabled (config c) then readQueue_Go c msg else dispatch c msg))
   \<and> (\<not> CheckUtf8Enabled (config c) \<or> Opcode msg \<noteq> OpcodeText
      \<longrightarrow> emitMessage utf8 c msg
            = (if ParallelEnabled (config c) then readQueue_Go c msg else dispatch c msg))
   \<and> dispatch c msg = (None, c\<lparr>events := events c @ [OnMessage msg]\<rparr>)
   \<and> readQueue_Go c msg = (None, c\<lparr>readQueue := readQueue c @ [msg]\<rparr>)
   \<and> Uint16 CloseUnsupportedData = 1007"
  by (auto simp: emitMessage_cases dispatch_def readQueue_Go_def)

theorem text_encoding_check_witness:
  "emitMessage sample_utf8 (fresh_server []) \<lparr>Opcode = OpcodeText, Data = [255]\<rparr>
     = (Some (NewError CloseUnsupportedData ErrTextEncoding), fresh_server [])
   \<and> emitMessage sample_utf8 (fresh_server []) \<lparr>Opcode = OpcodeText, Data = [104]\<rparr>
     = (None, (fresh_server [])\<lparr>events := [OnMessage \<lparr>Opcode = OpcodeText, Data = [104]\<rparr>]\<rparr>)
   \<and> emitMessage sample_utf8 (fresh_server []) \<lparr>Opcode = OpcodeBinary, Data = [255]\<rparr>
     = (None, (fresh_server [])\<lparr>events := [OnMessage \<lparr>Opcode = OpcodeBinary, Data = [255]\<rparr>]\<rparr>)"
proof -
  let ?c = "fresh_server []"
  have cfg: "CheckUtf8Enabled (config ?c)" "\<not> ParallelEnabled (config ?c)" "events ?c = []"
    by (simp_all add: fresh_server_def sample_config_def)
  have 1: "emitMessage sample_utf8 ?c \<lparr>Opcode = OpcodeText, Data = [255]\<rparr>
             = (Some (NewError CloseUnsupportedData ErrTextEncoding), ?c)"
    by (rule text_encoding_check [THEN conjunct2, THEN conjunct1, THEN mp])
       (simp add: cfg sample_utf8_def)
  have "emitMessage sample_utf8 ?c \<lparr>Opcode = OpcodeText, Data = [104]\<rparr>
          = (if ParallelEnabled (config ?c)
             then readQueue_Go ?c \<lparr>Opcode = OpcodeText, Data = [104]\<rparr>
             else dispatch ?c \<lparr>Opcode = OpcodeText, Data = [104]\<rparr>)"
    by (rule text_encoding_check [THEN conjunct2, THEN conjunct2, THEN conjunct1, THEN mp])
       (simp add: cfg sample_utf8_def)
  then have 2: "emitMessage sample_utf8 ?c \<lparr>Opcode = OpcodeText, Data = [104]\<rparr>
          = (None, ?c\<lparr>events := [OnMessage \<lparr>Opcode = OpcodeText, Data = [104]\<rparr>]\<rparr>)"
    by (simp add: cfg dispatch_def)
  have "emitMessage sample_utf8 ?c \<lparr>Opcode = OpcodeBinary, Data = [255]\<rparr>
          = (if ParallelEnabled (config ?c)
             then readQueue_Go ?c \<lparr>Opcode = OpcodeBinary, Data = [255]\<rparr>
             else dispatch ?c \<lparr>Opcode = OpcodeBinary, Data = [255]\<rparr>)"
    by (rule text_encoding_check
          [THEN conjunct2, THEN conjunct2, THEN conjunct2, THEN conjunct1, THEN mp])
       simp
  then have 3: "emitMessage sample_utf8 ?c \<lparr>Opcode = OpcodeBinary, Data = [255]\<rparr>
          = (None, ?c\<lparr>events := [OnMessage \<lparr>Opcode = OpcodeBinary, Data = [255]\<rparr>]\<rparr>)"
    by (simp add: cfg dispatch_def)
  from 1 2 3 show ?thesis by blast
qed

section \<open>Properties of the option initialisers and of the handshake\<close>

subsection \<open>Auxiliary facts\<close>

lemma doubling_least:
  "x = 2 ^ i \<Longrightarrow> (\<forall>j. n \<le> 2 ^ j \<longrightarrow> x \<le> 2 ^ j) \<Longrightarrow>
     (\<exists>k. doubling x n = 2 ^ k) \<and> n \<le> doubling x n
     \<and> (\<forall>j. n \<le> 2 ^ j \<longrightarrow> doubling x n \<le> 2 ^ j)"
proof (induction x n arbitrary: i rule: doubling.induct)
  case (1 x n)
  show ?case
  proof (cases "0 < x \<and> x < n")
    case True
    have "\<forall>j. n \<le> 2 ^ j \<longrightarrow> 2 * x \<le> 2 ^ j"
    proof (intro allI impI)
      fix j :: nat
      assume "n \<le> 2 ^ j"
      with True have "x < 2 ^ j" by simp
      then have "(2::nat) ^ i < 2 ^ j" using "1.prems"(1) by simp
      then have "i < j" by (rule power_less_imp_less_exp [rotated]) simp
      then have "(2::nat) ^ Suc i \<le> 2 ^ j" by (intro power_increasing) simp_all
      then show "2 * x \<le> 2 ^ j" using "1.prems"(1) by simp
    qed
    moreover have "2 * x = 2 ^ Suc i" using "1.prems"(1) by simp
    ultimately have "(\<exists>k. doubling (2 * x) n = 2 ^ k) \<and> n \<le> doubling (2 * x) n
        \<and> (\<forall>j. n \<le> 2 ^ j \<longrightarrow> doubling (2 * x) n \<le> 2 ^ j)"
      using "1.IH" [OF True] by blast
    with True show ?thesis by (subst (1 2 3) doubling.simps) simp
  next
    case False
    then have d: "doubling x n = x" by (subst doubling.simps) auto
    have "0 < x" using "1.prems"(1) by simp
    with False have "n \<le> x" by simp
    with d "1.prems" show ?thesis by auto
  qed
qed

lemma ToBinaryNumber_least:
  "(\<exists>k. ToBinaryNumber n = 2 ^ k) \<and> n \<le> ToBinaryNumber n
   \<and> (\<forall>j. n \<le> 2 ^ j \<longrightarrow> ToBinaryNumber n \<le> 2 ^ j)"
proof -
  have D: "(\<exists>k. doubling 1 (nat n) = 2 ^ k) \<and> nat n \<le> doubling 1 (nat n)
     \<and> (\<forall>j. nat n \<le> 2 ^ j \<longrightarrow> doubling 1 (nat n) \<le> 2 ^ j)"
    by (rule doubling_least [where i = 0]) simp_all
  then obtain k where k: "doubling 1 (nat n) = 2 ^ k" by blast
  have 1: "\<exists>k. ToBinaryNumber n = 2 ^ k"
    using k by (auto simp: ToBinaryNumber_def intro!: exI [where x = k])
  have "nat n \<le> doubling 1 (nat n)" using D by blast
  then have "n \<le> int (doubling 1 (nat n))" by linarith
  then have 2: "n \<le> ToBinaryNumber n" by (simp only: ToBinaryNumber_def)
  have 3: "\<forall>j. n \<le> 2 ^ j \<longrightarrow> ToBinaryNumber n \<le> 2 ^ j"
  proof (intro allI impI)
    fix j :: nat
    assume "n \<le> 2 ^ j"
    then have "nat n \<le> 2 ^ j" by (simp add: nat_le_iff)
    with D have "doubling 1 (nat n) \<le> 2 ^ j" by blast
    then have "int (doubling 1 (nat n)) \<le> int (2 ^ j)" by (simp only: of_nat_le_iff)
    then show "ToBinaryNumber n \<le> 2 ^ j" by (simp add: ToBinaryNumber_def)
  qed
  from 1 2 3 show ?thesis by blast
qed

lemma ToBinaryNumber_20: "ToBinaryNumber 20 = 32"
  by (simp add: ToBinaryNumber_def doubling.simps)

end
